theory Spec2Isabelle
  imports Main "HOL-Library.Word"
begin

text \<open>
  The repository is a relational schema, written as one SQL script for PostgreSQL (six
  \<open>CREATE TABLE\<close> statements, a trigger function and six triggers), and a React
  component that renders a fixed list of organizer cards. The schema is embedded as the
  statements it admits: \<open>INSERT\<close>, \<open>UPDATE\<close> and \<open>DELETE\<close> on each table are functions
  on the database that apply the defaults, constraints, foreign keys and triggers the script
  declares, and return an error where the database would raise one. The component is
  embedded as the element tree it returns.
\<close>

section \<open>Column types of the schema\<close>

text \<open>
  The schema (the SQL script of the repository) uses five column types. A value of any
  column may be NULL until a \<open>NOT NULL\<close> constraint rejects it, so a column of SQL type
  \<open>T\<close> holds a \<open>T option\<close>, \<open>None\<close> being NULL.
  \<^item> \<open>UUID\<close>: 128 bits;
  \<^item> \<open>TEXT\<close>: a string;
  \<^item> \<open>TIMESTAMPTZ\<close>: a point in time, counted in microseconds;
  \<^item> \<open>INTEGER\<close>: a 32-bit integer, read signed (\<open>sint\<close>);
  \<^item> \<open>DECIMAL(10, 2)\<close>: the number of hundredths, with at most ten digits.
\<close>

type_synonym uuid = "128 word"
type_synonym text_t = string
type_synonym timestamptz = int
type_synonym integer_t = "32 word"
type_synonym decimal_10_2 = int

section \<open>Rows and tables\<close>

text \<open>
  Every table starts with \<open>id\<close> and ends with \<open>created_at\<close> and \<open>updated_at\<close>. These
  three columns are the common part of all row types; the columns of each table extend
  it. A column \<open>c\<close> of table \<open>t\<close> is the field \<open>t_c\<close> (SQL's \<open>t.c\<close>), and \<open>id\<close> is
  \<open>id_col\<close>.
\<close>

record audited =
  id_col :: "uuid option"
  created_at :: "timestamptz option"
  updated_at :: "timestamptz option"

record users_row = audited +
  users_name :: "text_t option"
  users_email :: "text_t option"

record organizers_row = audited +
  organizers_name :: "text_t option"
  organizers_description :: "text_t option"
  organizers_contact_email :: "text_t option"

record events_row = audited +
  events_organizer_id :: "uuid option"
  events_title :: "text_t option"
  events_description :: "text_t option"
  events_location :: "text_t option"
  events_start_time :: "timestamptz option"
  events_end_time :: "timestamptz option"

record ticket_tiers_row = audited +
  ticket_tiers_event_id :: "uuid option"
  ticket_tiers_name :: "text_t option"
  ticket_tiers_description :: "text_t option"
  ticket_tiers_price :: "decimal_10_2 option"
  ticket_tiers_total_quantity :: "integer_t option"
  ticket_tiers_available_quantity :: "integer_t option"

record tickets_row = audited +
  tickets_user_id :: "uuid option"
  tickets_ticket_tier_id :: "uuid option"
  tickets_status :: "text_t option"
  tickets_qr_code :: "text_t option"

record transactions_row = audited +
  transactions_ticket_id :: "uuid option"
  transactions_amount :: "decimal_10_2 option"
  transactions_currency :: "text_t option"
  transactions_status :: "text_t option"
  transactions_stellar_transaction_hash :: "text_t option"

text \<open>The database: the six tables, each the list of its rows.\<close>

record database =
  users :: "users_row list"
  organizers :: "organizers_row list"
  events :: "events_row list"
  ticket_tiers :: "ticket_tiers_row list"
  tickets :: "tickets_row list"
  transactions :: "transactions_row list"

definition empty_database :: database where
  "empty_database =
     \<lparr>users = [], organizers = [], events = [], ticket_tiers = [], tickets = [],
      transactions = []\<rparr>"

section \<open>Statements, defaults and constraints\<close>

text \<open>
  The two functions the column defaults and the trigger call are not part of the script:
  \<open>NOW()\<close> and \<open>uuid_generate_v4()\<close> of the \<open>uuid-ossp\<close> extension. A statement
  runs with the values they return for it.
\<close>

record session =
  NOW :: timestamptz
  uuid_generate_v4 :: uuid

text \<open>
  An \<open>INSERT\<close> either leaves a column out, and the column's \<open>DEFAULT\<close> is stored (NULL
  when the column declares none), or supplies a value, which may be NULL.
\<close>

datatype 'a col_input = Omitted | Supplied "'a option"

fun with_default :: "'a option \<Rightarrow> 'a col_input \<Rightarrow> 'a option" where
  "with_default d Omitted = d"
| "with_default d (Supplied v) = v"

text \<open>The errors of the database layer, each with the table and the column it is about.\<close>

datatype db_error =
    NotNullViolation string string
  | UniqueViolation string string
  | ForeignKeyViolation string string
  | NumericValueOutOfRange string string

fun is_unique_violation :: "db_error \<Rightarrow> bool" where
  "is_unique_violation (UniqueViolation t c) = True"
| "is_unique_violation e = False"

fun is_foreign_key_violation :: "db_error \<Rightarrow> bool" where
  "is_foreign_key_violation (ForeignKeyViolation t c) = True"
| "is_foreign_key_violation e = False"

text \<open>The checks of a statement run in order; the first that fails aborts it.\<close>

fun first_error :: "db_error option list \<Rightarrow> db_error option" where
  "first_error [] = None"
| "first_error (None # cs) = first_error cs"
| "first_error (Some e # cs) = Some e"

text \<open>\<open>NOT NULL\<close>.\<close>

definition not_null :: "string \<Rightarrow> string \<Rightarrow> 'a option \<Rightarrow> db_error option" where
  "not_null t c v = (case v of None \<Rightarrow> Some (NotNullViolation t c) | Some x \<Rightarrow> None)"

text \<open>\<open>DECIMAL(10, 2)\<close>: at most ten digits, two of them after the point.\<close>

definition decimal_10_2_range :: "string \<Rightarrow> string \<Rightarrow> decimal_10_2 option \<Rightarrow> db_error option" where
  "decimal_10_2_range t c v =
     (case v of
        None \<Rightarrow> None
      | Some x \<Rightarrow> if \<bar>x\<bar> < 10 ^ 10 then None else Some (NumericValueOutOfRange t c))"

text \<open>
  \<open>PRIMARY KEY\<close> and \<open>UNIQUE\<close>: no other row of the table has the same value in the
  column. NULL is equal to nothing, so a NULL never collides.
\<close>

definition unique_key ::
  "string \<Rightarrow> string \<Rightarrow> ('r \<Rightarrow> 'k option) \<Rightarrow> 'r list \<Rightarrow> 'r \<Rightarrow> db_error option" where
  "unique_key t c col others NEW =
     (case col NEW of
        None \<Rightarrow> None
      | Some k \<Rightarrow> if Some k \<in> set (map col others) then Some (UniqueViolation t c) else None)"

text \<open>
  \<open>REFERENCES parent(id)\<close>: a value that is not NULL is the \<open>id\<close> of a row of the
  parent table.
\<close>

definition references ::
  "string \<Rightarrow> string \<Rightarrow> uuid option \<Rightarrow> 'p audited_scheme list \<Rightarrow> db_error option" where
  "references t c fk parent =
     (case fk of
        None \<Rightarrow> None
      | Some k \<Rightarrow> if Some k \<in> set (map id_col parent) then None else Some (ForeignKeyViolation t c))"

text \<open>
  A statement that fails has no effect: the database after it is the database before it.
\<close>

definition state_after :: "database \<Rightarrow> db_error + database \<Rightarrow> database" where
  "state_after db r = (case r of Inl e \<Rightarrow> db | Inr db' \<Rightarrow> db')"

section \<open>INSERT\<close>

record inserted =
  ins_id :: "uuid col_input"
  ins_created_at :: "timestamptz col_input"
  ins_updated_at :: "timestamptz col_input"

record users_insert = inserted +
  ins_users_name :: "text_t col_input"
  ins_users_email :: "text_t col_input"

text \<open>
  \<open>CREATE TABLE users\<close>: the defaults fill the columns left out; then the \<open>NOT NULL\<close>
  constraints in column order, then the primary key and \<open>UNIQUE\<close> on \<open>email\<close>.
\<close>

definition users_tuple :: "session \<Rightarrow> users_insert \<Rightarrow> users_row" where
  "users_tuple s v =
     \<lparr>id_col = with_default (Some (uuid_generate_v4 s)) (ins_id v),
      created_at = with_default (Some (NOW s)) (ins_created_at v),
      updated_at = with_default (Some (NOW s)) (ins_updated_at v),
      users_name = with_default None (ins_users_name v),
      users_email = with_default None (ins_users_email v)\<rparr>"

definition users_constraints :: "users_row list \<Rightarrow> users_row \<Rightarrow> db_error option" where
  "users_constraints others NEW =
     first_error
       [not_null ''users'' ''id'' (id_col NEW),
        not_null ''users'' ''name'' (users_name NEW),
        not_null ''users'' ''email'' (users_email NEW),
        not_null ''users'' ''created_at'' (created_at NEW),
        not_null ''users'' ''updated_at'' (updated_at NEW),
        unique_key ''users'' ''id'' id_col others NEW,
        unique_key ''users'' ''email'' users_email others NEW]"

definition insert_users :: "session \<Rightarrow> users_insert \<Rightarrow> database \<Rightarrow> db_error + database" where
  "insert_users s v db =
     (let NEW = users_tuple s v in
      case users_constraints (users db) NEW of
        Some e \<Rightarrow> Inl e
      | None \<Rightarrow> Inr (db\<lparr>users := users db @ [NEW]\<rparr>))"

record organizers_insert = inserted +
  ins_organizers_name :: "text_t col_input"
  ins_organizers_description :: "text_t col_input"
  ins_organizers_contact_email :: "text_t col_input"

text \<open>\<open>CREATE TABLE organizers\<close>: \<open>description\<close> may be NULL.\<close>

definition organizers_tuple :: "session \<Rightarrow> organizers_insert \<Rightarrow> organizers_row" where
  "organizers_tuple s v =
     \<lparr>id_col = with_default (Some (uuid_generate_v4 s)) (ins_id v),
      created_at = with_default (Some (NOW s)) (ins_created_at v),
      updated_at = with_default (Some (NOW s)) (ins_updated_at v),
      organizers_name = with_default None (ins_organizers_name v),
      organizers_description = with_default None (ins_organizers_description v),
      organizers_contact_email = with_default None (ins_organizers_contact_email v)\<rparr>"

definition organizers_constraints ::
  "organizers_row list \<Rightarrow> organizers_row \<Rightarrow> db_error option" where
  "organizers_constraints others NEW =
     first_error
       [not_null ''organizers'' ''id'' (id_col NEW),
        not_null ''organizers'' ''name'' (organizers_name NEW),
        not_null ''organizers'' ''contact_email'' (organizers_contact_email NEW),
        not_null ''organizers'' ''created_at'' (created_at NEW),
        not_null ''organizers'' ''updated_at'' (updated_at NEW),
        unique_key ''organizers'' ''id'' id_col others NEW]"

definition insert_organizers ::
  "session \<Rightarrow> organizers_insert \<Rightarrow> database \<Rightarrow> db_error + database" where
  "insert_organizers s v db =
     (let NEW = organizers_tuple s v in
      case organizers_constraints (organizers db) NEW of
        Some e \<Rightarrow> Inl e
      | None \<Rightarrow> Inr (db\<lparr>organizers := organizers db @ [NEW]\<rparr>))"

record events_insert = inserted +
  ins_events_organizer_id :: "uuid col_input"
  ins_events_title :: "text_t col_input"
  ins_events_description :: "text_t col_input"
  ins_events_location :: "text_t col_input"
  ins_events_start_time :: "timestamptz col_input"
  ins_events_end_time :: "timestamptz col_input"

text \<open>
  \<open>CREATE TABLE events\<close>: \<open>description\<close> and \<open>end_time\<close> may be NULL. The foreign
  key is checked once the row is in the table, after the constraints of the row itself.
\<close>

definition events_tuple :: "session \<Rightarrow> events_insert \<Rightarrow> events_row" where
  "events_tuple s v =
     \<lparr>id_col = with_default (Some (uuid_generate_v4 s)) (ins_id v),
      created_at = with_default (Some (NOW s)) (ins_created_at v),
      updated_at = with_default (Some (NOW s)) (ins_updated_at v),
      events_organizer_id = with_default None (ins_events_organizer_id v),
      events_title = with_default None (ins_events_title v),
      events_description = with_default None (ins_events_description v),
      events_location = with_default None (ins_events_location v),
      events_start_time = with_default None (ins_events_start_time v),
      events_end_time = with_default None (ins_events_end_time v)\<rparr>"

definition events_constraints :: "events_row list \<Rightarrow> events_row \<Rightarrow> db_error option" where
  "events_constraints others NEW =
     first_error
       [not_null ''events'' ''id'' (id_col NEW),
        not_null ''events'' ''organizer_id'' (events_organizer_id NEW),
        not_null ''events'' ''title'' (events_title NEW),
        not_null ''events'' ''location'' (events_location NEW),
        not_null ''events'' ''start_time'' (events_start_time NEW),
        not_null ''events'' ''created_at'' (created_at NEW),
        not_null ''events'' ''updated_at'' (updated_at NEW),
        unique_key ''events'' ''id'' id_col others NEW]"

definition insert_events :: "session \<Rightarrow> events_insert \<Rightarrow> database \<Rightarrow> db_error + database" where
  "insert_events s v db =
     (let NEW = events_tuple s v in
      case first_error
             [events_constraints (events db) NEW,
              references ''events'' ''organizer_id'' (events_organizer_id NEW) (organizers db)] of
        Some e \<Rightarrow> Inl e
      | None \<Rightarrow> Inr (db\<lparr>events := events db @ [NEW]\<rparr>))"

record ticket_tiers_insert = inserted +
  ins_ticket_tiers_event_id :: "uuid col_input"
  ins_ticket_tiers_name :: "text_t col_input"
  ins_ticket_tiers_description :: "text_t col_input"
  ins_ticket_tiers_price :: "decimal_10_2 col_input"
  ins_ticket_tiers_total_quantity :: "integer_t col_input"
  ins_ticket_tiers_available_quantity :: "integer_t col_input"

text \<open>
  \<open>CREATE TABLE ticket_tiers\<close>: the price has to fit \<open>DECIMAL(10, 2)\<close>; the two
  quantities are \<open>INTEGER NOT NULL\<close> and nothing more.
\<close>

definition ticket_tiers_tuple :: "session \<Rightarrow> ticket_tiers_insert \<Rightarrow> ticket_tiers_row" where
  "ticket_tiers_tuple s v =
     \<lparr>id_col = with_default (Some (uuid_generate_v4 s)) (ins_id v),
      created_at = with_default (Some (NOW s)) (ins_created_at v),
      updated_at = with_default (Some (NOW s)) (ins_updated_at v),
      ticket_tiers_event_id = with_default None (ins_ticket_tiers_event_id v),
      ticket_tiers_name = with_default None (ins_ticket_tiers_name v),
      ticket_tiers_description = with_default None (ins_ticket_tiers_description v),
      ticket_tiers_price = with_default None (ins_ticket_tiers_price v),
      ticket_tiers_total_quantity = with_default None (ins_ticket_tiers_total_quantity v),
      ticket_tiers_available_quantity =
        with_default None (ins_ticket_tiers_available_quantity v)\<rparr>"

definition ticket_tiers_constraints ::
  "ticket_tiers_row list \<Rightarrow> ticket_tiers_row \<Rightarrow> db_error option" where
  "ticket_tiers_constraints others NEW =
     first_error
       [decimal_10_2_range ''ticket_tiers'' ''price'' (ticket_tiers_price NEW),
        not_null ''ticket_tiers'' ''id'' (id_col NEW),
        not_null ''ticket_tiers'' ''event_id'' (ticket_tiers_event_id NEW),
        not_null ''ticket_tiers'' ''name'' (ticket_tiers_name NEW),
        not_null ''ticket_tiers'' ''price'' (ticket_tiers_price NEW),
        not_null ''ticket_tiers'' ''total_quantity'' (ticket_tiers_total_quantity NEW),
        not_null ''ticket_tiers'' ''available_quantity'' (ticket_tiers_available_quantity NEW),
        not_null ''ticket_tiers'' ''created_at'' (created_at NEW),
        not_null ''ticket_tiers'' ''updated_at'' (updated_at NEW),
        unique_key ''ticket_tiers'' ''id'' id_col others NEW]"

definition insert_ticket_tiers ::
  "session \<Rightarrow> ticket_tiers_insert \<Rightarrow> database \<Rightarrow> db_error + database" where
  "insert_ticket_tiers s v db =
     (let NEW = ticket_tiers_tuple s v in
      case first_error
             [ticket_tiers_constraints (ticket_tiers db) NEW,
              references ''ticket_tiers'' ''event_id'' (ticket_tiers_event_id NEW) (events db)] of
        Some e \<Rightarrow> Inl e
      | None \<Rightarrow> Inr (db\<lparr>ticket_tiers := ticket_tiers db @ [NEW]\<rparr>))"

record tickets_insert = inserted +
  ins_tickets_user_id :: "uuid col_input"
  ins_tickets_ticket_tier_id :: "uuid col_input"
  ins_tickets_status :: "text_t col_input"
  ins_tickets_qr_code :: "text_t col_input"

text \<open>
  \<open>CREATE TABLE tickets\<close>: \<open>status\<close> is \<open>TEXT NOT NULL\<close>; the values of the comment
  ('active', 'used', 'cancelled') are examples, no constraint names them.
\<close>

definition tickets_tuple :: "session \<Rightarrow> tickets_insert \<Rightarrow> tickets_row" where
  "tickets_tuple s v =
     \<lparr>id_col = with_default (Some (uuid_generate_v4 s)) (ins_id v),
      created_at = with_default (Some (NOW s)) (ins_created_at v),
      updated_at = with_default (Some (NOW s)) (ins_updated_at v),
      tickets_user_id = with_default None (ins_tickets_user_id v),
      tickets_ticket_tier_id = with_default None (ins_tickets_ticket_tier_id v),
      tickets_status = with_default None (ins_tickets_status v),
      tickets_qr_code = with_default None (ins_tickets_qr_code v)\<rparr>"

definition tickets_constraints :: "tickets_row list \<Rightarrow> tickets_row \<Rightarrow> db_error option" where
  "tickets_constraints others NEW =
     first_error
       [not_null ''tickets'' ''id'' (id_col NEW),
        not_null ''tickets'' ''user_id'' (tickets_user_id NEW),
        not_null ''tickets'' ''ticket_tier_id'' (tickets_ticket_tier_id NEW),
        not_null ''tickets'' ''status'' (tickets_status NEW),
        not_null ''tickets'' ''created_at'' (created_at NEW),
        not_null ''tickets'' ''updated_at'' (updated_at NEW),
        unique_key ''tickets'' ''id'' id_col others NEW]"

definition insert_tickets :: "session \<Rightarrow> tickets_insert \<Rightarrow> database \<Rightarrow> db_error + database" where
  "insert_tickets s v db =
     (let NEW = tickets_tuple s v in
      case first_error
             [tickets_constraints (tickets db) NEW,
              references ''tickets'' ''user_id'' (tickets_user_id NEW) (users db),
              references ''tickets'' ''ticket_tier_id'' (tickets_ticket_tier_id NEW)
                (ticket_tiers db)] of
        Some e \<Rightarrow> Inl e
      | None \<Rightarrow> Inr (db\<lparr>tickets := tickets db @ [NEW]\<rparr>))"

record transactions_insert = inserted +
  ins_transactions_ticket_id :: "uuid col_input"
  ins_transactions_amount :: "decimal_10_2 col_input"
  ins_transactions_currency :: "text_t col_input"
  ins_transactions_status :: "text_t col_input"
  ins_transactions_stellar_transaction_hash :: "text_t col_input"

text \<open>
  \<open>CREATE TABLE transactions\<close>: \<open>currency\<close> has the default \<open>'USD'\<close>; \<open>status\<close> is
  \<open>TEXT NOT NULL\<close>, the values of the comment are examples.
\<close>

definition transactions_tuple :: "session \<Rightarrow> transactions_insert \<Rightarrow> transactions_row" where
  "transactions_tuple s v =
     \<lparr>id_col = with_default (Some (uuid_generate_v4 s)) (ins_id v),
      created_at = with_default (Some (NOW s)) (ins_created_at v),
      updated_at = with_default (Some (NOW s)) (ins_updated_at v),
      transactions_ticket_id = with_default None (ins_transactions_ticket_id v),
      transactions_amount = with_default None (ins_transactions_amount v),
      transactions_currency = with_default (Some ''USD'') (ins_transactions_currency v),
      transactions_status = with_default None (ins_transactions_status v),
      transactions_stellar_transaction_hash =
        with_default None (ins_transactions_stellar_transaction_hash v)\<rparr>"

definition transactions_constraints ::
  "transactions_row list \<Rightarrow> transactions_row \<Rightarrow> db_error option" where
  "transactions_constraints others NEW =
     first_error
       [decimal_10_2_range ''transactions'' ''amount'' (transactions_amount NEW),
        not_null ''transactions'' ''id'' (id_col NEW),
        not_null ''transactions'' ''ticket_id'' (transactions_ticket_id NEW),
        not_null ''transactions'' ''amount'' (transactions_amount NEW),
        not_null ''transactions'' ''currency'' (transactions_currency NEW),
        not_null ''transactions'' ''status'' (transactions_status NEW),
        not_null ''transactions'' ''created_at'' (created_at NEW),
        not_null ''transactions'' ''updated_at'' (updated_at NEW),
        unique_key ''transactions'' ''id'' id_col others NEW]"

definition insert_transactions ::
  "session \<Rightarrow> transactions_insert \<Rightarrow> database \<Rightarrow> db_error + database" where
  "insert_transactions s v db =
     (let NEW = transactions_tuple s v in
      case first_error
             [transactions_constraints (transactions db) NEW,
              references ''transactions'' ''ticket_id'' (transactions_ticket_id NEW)
                (tickets db)] of
        Some e \<Rightarrow> Inl e
      | None \<Rightarrow> Inr (db\<lparr>transactions := transactions db @ [NEW]\<rparr>))"

section \<open>UPDATE\<close>

text \<open>
  The trigger function of the script, \<open>NEW.updated_at = NOW(); RETURN NEW;\<close>, is written
  once for every table that has the column, and six triggers bind it to the six tables,
  \<open>BEFORE UPDATE ... FOR EACH ROW\<close>.
\<close>

definition update_updated_at_column :: "session \<Rightarrow> 'a audited_scheme \<Rightarrow> 'a audited_scheme" where
  "update_updated_at_column s NEW = NEW\<lparr>updated_at := Some (NOW s)\<rparr>"

definition update_users_updated_at :: "session \<Rightarrow> users_row \<Rightarrow> users_row" where
  "update_users_updated_at = update_updated_at_column"

definition update_organizers_updated_at :: "session \<Rightarrow> organizers_row \<Rightarrow> organizers_row" where
  "update_organizers_updated_at = update_updated_at_column"

definition update_events_updated_at :: "session \<Rightarrow> events_row \<Rightarrow> events_row" where
  "update_events_updated_at = update_updated_at_column"

definition update_ticket_tiers_updated_at ::
  "session \<Rightarrow> ticket_tiers_row \<Rightarrow> ticket_tiers_row" where
  "update_ticket_tiers_updated_at = update_updated_at_column"

definition update_tickets_updated_at :: "session \<Rightarrow> tickets_row \<Rightarrow> tickets_row" where
  "update_tickets_updated_at = update_updated_at_column"

definition update_transactions_updated_at ::
  "session \<Rightarrow> transactions_row \<Rightarrow> transactions_row" where
  "update_transactions_updated_at = update_updated_at_column"

text \<open>
  \<open>UPDATE t SET ... WHERE ...\<close> visits the rows of the table in turn. For a row \<open>OLD\<close>
  that the \<open>WHERE\<close> clause \<open>wh\<close> selects, the \<open>SET\<close> clause \<open>set_cols\<close> gives the new row
  (a column it does not mention keeps the value of \<open>OLD\<close>), the \<open>BEFORE UPDATE\<close>
  trigger gets that row as \<open>NEW\<close> and what it returns is checked against the constraints
  of the table and the other rows, and stored. The rows already visited are \<open>seen\<close>.
\<close>

fun update_rows ::
  "('r \<Rightarrow> bool) \<Rightarrow> ('r \<Rightarrow> 'r) \<Rightarrow> ('r \<Rightarrow> 'r) \<Rightarrow> ('r list \<Rightarrow> 'r \<Rightarrow> db_error option) \<Rightarrow>
   'r list \<Rightarrow> 'r list \<Rightarrow> db_error + 'r list" where
  "update_rows wh set_cols before_update constraints seen [] = Inr seen"
| "update_rows wh set_cols before_update constraints seen (OLD # rest) =
     (if wh OLD then
        (let NEW = before_update (set_cols OLD) in
         case constraints (seen @ rest) NEW of
           Some e \<Rightarrow> Inl e
         | None \<Rightarrow> update_rows wh set_cols before_update constraints (seen @ [NEW]) rest)
      else update_rows wh set_cols before_update constraints (seen @ [OLD]) rest)"

text \<open>
  The foreign keys are checked at the end of the statement. A row whose referencing
  column changed has to reference a row of the parent table.
\<close>

definition references_changed ::
  "string \<Rightarrow> string \<Rightarrow> ('r \<Rightarrow> uuid option) \<Rightarrow> 'p audited_scheme list \<Rightarrow> 'r list \<Rightarrow> 'r list \<Rightarrow>
   db_error option" where
  "references_changed t c col parent olds news =
     first_error
       (map (\<lambda>(OLD, NEW). if col NEW = col OLD then None else references t c (col NEW) parent)
          (zip olds news))"

text \<open>
  No foreign key of the script says \<open>ON UPDATE\<close>, so a change of a referenced \<open>id\<close> is
  refused (\<open>NO ACTION\<close>) when a row of the referencing table \<open>t\<close> is left with an \<open>id\<close>
  that is gone.
\<close>

definition no_action ::
  "string \<Rightarrow> string \<Rightarrow> ('c \<Rightarrow> uuid option) \<Rightarrow> 'c list \<Rightarrow> 'p audited_scheme list \<Rightarrow>
   'p audited_scheme list \<Rightarrow> db_error option" where
  "no_action t c col children olds news =
     (if \<exists>ch \<in> set children.
           col ch \<noteq> None \<and> col ch \<in> set (map id_col olds) \<and> col ch \<notin> set (map id_col news)
      then Some (ForeignKeyViolation t c) else None)"

definition update_users ::
  "session \<Rightarrow> (users_row \<Rightarrow> bool) \<Rightarrow> (users_row \<Rightarrow> users_row) \<Rightarrow> database \<Rightarrow>
   db_error + database" where
  "update_users s wh set_cols db =
     (case update_rows wh set_cols (update_users_updated_at s) users_constraints [] (users db) of
        Inl e \<Rightarrow> Inl e
      | Inr rows \<Rightarrow>
          (case first_error
                  [no_action ''tickets'' ''user_id'' tickets_user_id (tickets db) (users db) rows] of
             Some e \<Rightarrow> Inl e
           | None \<Rightarrow> Inr (db\<lparr>users := rows\<rparr>)))"

definition update_organizers ::
  "session \<Rightarrow> (organizers_row \<Rightarrow> bool) \<Rightarrow> (organizers_row \<Rightarrow> organizers_row) \<Rightarrow> database \<Rightarrow>
   db_error + database" where
  "update_organizers s wh set_cols db =
     (case update_rows wh set_cols (update_organizers_updated_at s) organizers_constraints []
             (organizers db) of
        Inl e \<Rightarrow> Inl e
      | Inr rows \<Rightarrow>
          (case first_error
                  [no_action ''events'' ''organizer_id'' events_organizer_id (events db)
                     (organizers db) rows] of
             Some e \<Rightarrow> Inl e
           | None \<Rightarrow> Inr (db\<lparr>organizers := rows\<rparr>)))"

definition update_events ::
  "session \<Rightarrow> (events_row \<Rightarrow> bool) \<Rightarrow> (events_row \<Rightarrow> events_row) \<Rightarrow> database \<Rightarrow>
   db_error + database" where
  "update_events s wh set_cols db =
     (case update_rows wh set_cols (update_events_updated_at s) events_constraints []
             (events db) of
        Inl e \<Rightarrow> Inl e
      | Inr rows \<Rightarrow>
          (case first_error
                  [references_changed ''events'' ''organizer_id'' events_organizer_id
                     (organizers db) (events db) rows,
                   no_action ''ticket_tiers'' ''event_id'' ticket_tiers_event_id (ticket_tiers db)
                     (events db) rows] of
             Some e \<Rightarrow> Inl e
           | None \<Rightarrow> Inr (db\<lparr>events := rows\<rparr>)))"

definition update_ticket_tiers ::
  "session \<Rightarrow> (ticket_tiers_row \<Rightarrow> bool) \<Rightarrow> (ticket_tiers_row \<Rightarrow> ticket_tiers_row) \<Rightarrow>
   database \<Rightarrow> db_error + database" where
  "update_ticket_tiers s wh set_cols db =
     (case update_rows wh set_cols (update_ticket_tiers_updated_at s) ticket_tiers_constraints []
             (ticket_tiers db) of
        Inl e \<Rightarrow> Inl e
      | Inr rows \<Rightarrow>
          (case first_error
                  [references_changed ''ticket_tiers'' ''event_id'' ticket_tiers_event_id
                     (events db) (ticket_tiers db) rows,
                   no_action ''tickets'' ''ticket_tier_id'' tickets_ticket_tier_id (tickets db)
                     (ticket_tiers db) rows] of
             Some e \<Rightarrow> Inl e
           | None \<Rightarrow> Inr (db\<lparr>ticket_tiers := rows\<rparr>)))"

definition update_tickets ::
  "session \<Rightarrow> (tickets_row \<Rightarrow> bool) \<Rightarrow> (tickets_row \<Rightarrow> tickets_row) \<Rightarrow> database \<Rightarrow>
   db_error + database" where
  "update_tickets s wh set_cols db =
     (case update_rows wh set_cols (update_tickets_updated_at s) tickets_constraints []
             (tickets db) of
        Inl e \<Rightarrow> Inl e
      | Inr rows \<Rightarrow>
          (case first_error
                  [references_changed ''tickets'' ''user_id'' tickets_user_id (users db)
                     (tickets db) rows,
                   references_changed ''tickets'' ''ticket_tier_id'' tickets_ticket_tier_id
                     (ticket_tiers db) (tickets db) rows,
                   no_action ''transactions'' ''ticket_id'' transactions_ticket_id
                     (transactions db) (tickets db) rows] of
             Some e \<Rightarrow> Inl e
           | None \<Rightarrow> Inr (db\<lparr>tickets := rows\<rparr>)))"

definition update_transactions ::
  "session \<Rightarrow> (transactions_row \<Rightarrow> bool) \<Rightarrow> (transactions_row \<Rightarrow> transactions_row) \<Rightarrow>
   database \<Rightarrow> db_error + database" where
  "update_transactions s wh set_cols db =
     (case update_rows wh set_cols (update_transactions_updated_at s) transactions_constraints []
             (transactions db) of
        Inl e \<Rightarrow> Inl e
      | Inr rows \<Rightarrow>
          (case first_error
                  [references_changed ''transactions'' ''ticket_id'' transactions_ticket_id
                     (tickets db) (transactions db) rows] of
             Some e \<Rightarrow> Inl e
           | None \<Rightarrow> Inr (db\<lparr>transactions := rows\<rparr>)))"

section \<open>DELETE\<close>

text \<open>
  Every foreign key of the script is \<open>ON DELETE CASCADE\<close>: for each row \<open>OLD\<close> that a
  \<open>DELETE\<close> removes from a referenced table, the rows of the referencing table whose
  column equals \<open>OLD.id\<close> are deleted in turn, by a \<open>DELETE\<close> that cascades the same way.
  In SQL a NULL is equal to nothing.
\<close>

definition sql_eq :: "'a option \<Rightarrow> 'a option \<Rightarrow> bool" where
  "sql_eq a b = (a \<noteq> None \<and> a = b)"

text \<open>The clause \<open>WHERE id = k\<close>, and a statement without \<open>WHERE\<close>, for every row.\<close>

definition where_id :: "uuid \<Rightarrow> 'a audited_scheme \<Rightarrow> bool" where
  "where_id k r = sql_eq (id_col r) (Some k)"

definition every_row :: "'r \<Rightarrow> bool" where
  "every_row r = True"

definition delete_transactions :: "(transactions_row \<Rightarrow> bool) \<Rightarrow> database \<Rightarrow> database" where
  "delete_transactions wh db = db\<lparr>transactions := filter (\<lambda>r. \<not> wh r) (transactions db)\<rparr>"

definition delete_tickets :: "(tickets_row \<Rightarrow> bool) \<Rightarrow> database \<Rightarrow> database" where
  "delete_tickets wh db =
     fold (\<lambda>OLD. delete_transactions (\<lambda>ch. sql_eq (transactions_ticket_id ch) (id_col OLD)))
       (filter wh (tickets db))
       (db\<lparr>tickets := filter (\<lambda>r. \<not> wh r) (tickets db)\<rparr>)"

definition delete_ticket_tiers :: "(ticket_tiers_row \<Rightarrow> bool) \<Rightarrow> database \<Rightarrow> database" where
  "delete_ticket_tiers wh db =
     fold (\<lambda>OLD. delete_tickets (\<lambda>ch. sql_eq (tickets_ticket_tier_id ch) (id_col OLD)))
       (filter wh (ticket_tiers db))
       (db\<lparr>ticket_tiers := filter (\<lambda>r. \<not> wh r) (ticket_tiers db)\<rparr>)"

definition delete_events :: "(events_row \<Rightarrow> bool) \<Rightarrow> database \<Rightarrow> database" where
  "delete_events wh db =
     fold (\<lambda>OLD. delete_ticket_tiers (\<lambda>ch. sql_eq (ticket_tiers_event_id ch) (id_col OLD)))
       (filter wh (events db))
       (db\<lparr>events := filter (\<lambda>r. \<not> wh r) (events db)\<rparr>)"

definition delete_organizers :: "(organizers_row \<Rightarrow> bool) \<Rightarrow> database \<Rightarrow> database" where
  "delete_organizers wh db =
     fold (\<lambda>OLD. delete_events (\<lambda>ch. sql_eq (events_organizer_id ch) (id_col OLD)))
       (filter wh (organizers db))
       (db\<lparr>organizers := filter (\<lambda>r. \<not> wh r) (organizers db)\<rparr>)"

definition delete_users :: "(users_row \<Rightarrow> bool) \<Rightarrow> database \<Rightarrow> database" where
  "delete_users wh db =
     fold (\<lambda>OLD. delete_tickets (\<lambda>ch. sql_eq (tickets_user_id ch) (id_col OLD)))
       (filter wh (users db))
       (db\<lparr>users := filter (\<lambda>r. \<not> wh r) (users db)\<rparr>)"

section \<open>The organizer component\<close>

text \<open>
  \<open>organizer-component.tsx\<close>: the type \<open>InfoCard\<close> (its fields \<open>id\<close>, \<open>title\<close>,
  \<open>description\<close>, \<open>image\<close> are \<open>card_id\<close>, ..., \<open>card_image\<close> here) and the constant
  array \<open>cardsData\<close>.
\<close>

record InfoCard =
  card_id :: string
  card_title :: string
  card_description :: string
  card_image :: string

definition cardsData :: "InfoCard list" where
  "cardsData =
     [\<lparr>card_id = ''stellar-west-africa'',
       card_title = ''Stellar West Africa'',
       card_description =
         ''Building and empowering the Stellar ecosystem in West Africa through education, developer support, and real-world blockchain adoption.'',
       card_image = ''/icons/stellar-west-africa.svg''\<rparr>,
      \<lparr>card_id = ''stellar-east-african-community'',
       card_title = ''Stellar East African Community'',
       card_description =
         ''Building and empowering the Stellar ecosystem in East Africa through education, developer support, and real-world blockchain adoption.'',
       card_image = ''/icons/stellar-east-africa.svg''\<rparr>,
      \<lparr>card_id = ''stellar-india'',
       card_title = ''Stellar India'',
       card_description =
         ''Building and empowering the Stellar ecosystem in West Africa through education, developer support, and real-world blockchain adoption.'',
       card_image = ''/icons/stellar-india.svg''\<rparr>,
      \<lparr>card_id = ''stellar-portugal'',
       card_title = ''Stellar Portugal'',
       card_description =
         ''Building and empowering the Stellar ecosystem in West Africa through education, developer support, and real-world blockchain adoption.'',
       card_image = ''/icons/stellar-portugal.svg''\<rparr>]"

text \<open>
  What a component returns: a tree of elements, each with its tag, its \<open>key\<close> when the
  source gives one, its other props (name and value) and its children; text is a leaf.
\<close>

datatype jsx =
    Element (tag: string) (key: "string option") (props: "(string \<times> string) list")
      (children: "jsx list")
  | TextNode string

text \<open>The imported icon \<open>group\<close> is the asset at the path of the import.\<close>

definition group :: string where
  "group = ''../../public/icons/user-group.svg''"

definition Button :: jsx where
  "Button =
     Element ''button'' None
       [(''className'',
         ''bg-yellow-300 pt-2 pl-3 pr-3 pb-2 flex gap-3 border border-yellow-300 rounded-lg items-center absolute top-40 right-5 hover:cursor-pointer'')]
       [Element ''Image'' None
          [(''src'', group), (''alt'', ''User Group Icon''),
           (''className'', ''w-5 h-5 lg:w-6 h-6'')] [],
        Element ''span'' None [(''className'', ''text-black font-semibold'')]
          [TextNode ''Subscribe'']]"

text \<open>
  The body of the arrow function that \<open>cardsData.map\<close> applies to each card (the
  parameter \<open>card\<close> is \<open>card'\<close>). The class
  name of the inner \<open>div\<close> runs over two lines in the source.
\<close>

definition card_element :: "InfoCard \<Rightarrow> jsx" where
  "card_element card' =
     Element ''div'' (Some (card_id card')) [(''className'', ''relative h-full'')]
       [Element ''section'' None
          [(''className'',
            ''absolute border-10 rounded-2xl bg-yellow-400 border-yellow-400 w-102 h-58 -left-2 top-2 z-0'')]
          [],
        Element ''div'' None
          [(''className'',
            ''relative z-10 bg-black text-white p-5x border rounded-2xl lg:min-w-100\<newline>                    relative h-40 lg:h-58'')]
          [Element ''div'' None [(''className'', ''absolute top-5 left-5'')]
             [Element ''Image'' None
                [(''src'', card_image card'), (''alt'', card_title card'), (''height'', ''65''),
                 (''width'', ''65''),
                 (''className'', ''relative z-10 border-4 border-black rounded-full'')] [],
              Element ''div'' None
                [(''className'', ''absolute -left-1 top-1 w-15 h-15 bg-white rounded-full z-0'')]
                []],
           Element ''div'' None
             [(''className'', ''text-lg font-semibold absolute left-25 top-10 w-full'')]
             [TextNode (card_title card')],
           Element ''p'' None [(''className'', ''text-xs absolute left-25 top-20 w-65'')]
             [TextNode (card_description card')],
           Button]]"

definition OrganizerComponent :: jsx where
  "OrganizerComponent =
     Element ''div'' None [(''className'', ''p-10 ml-4 lg:ml-40 hidden lg:block'')]
       [Element ''div'' None [(''className'', ''flex justify-start items-center gap-4 p-5 pb-10'')]
          [Element ''h1'' None [(''className'', ''font-semibold md:text-4xl'')]
             [TextNode ''Explore organizers''],
           Element ''Image'' None
             [(''src'', group), (''alt'', ''User Group Icon''),
              (''className'', ''w-5 h-5 lg:w-6 h-6 font-bold'')] []],
        Element ''section'' None
          [(''className'',
            ''flex justify-center items-center gap-10 overflow-x-auto scrollbar-hide pl-75 mr-50 h-65'')]
          (map card_element cardsData)]"

text \<open>
  Reading the rendered tree: the elements that carry a key, in document order (the
  organizer cards are the only ones), and the text directly inside the elements of a tag.
\<close>

fun keyed :: "jsx \<Rightarrow> jsx list" where
  "keyed (TextNode s) = []"
| "keyed (Element t k ps cs) =
     (case k of None \<Rightarrow> [] | Some i \<Rightarrow> [Element t k ps cs]) @ concat (map keyed cs)"

fun text_children :: "jsx list \<Rightarrow> string list" where
  "text_children [] = []"
| "text_children (TextNode s # cs) = s # text_children cs"
| "text_children (Element t k ps cs' # cs) = text_children cs"

fun texts_in :: "string \<Rightarrow> jsx \<Rightarrow> string list" where
  "texts_in t (TextNode s) = []"
| "texts_in t (Element t' k ps cs) =
     (if t' = t then text_children cs else []) @ concat (map (texts_in t) cs)"

section \<open>The properties in the words of the specification\<close>

text \<open>
  What the specification says of an update that turns the row \<open>OLD\<close> into the stored row
  \<open>NEW\<close>: the new \<open>updated_at\<close> is not earlier than the previous \<open>updated_at\<close> and not
  earlier than \<open>created_at\<close>.
\<close>

definition updated_at_not_earlier :: "'a audited_scheme \<Rightarrow> 'a audited_scheme \<Rightarrow> bool" where
  "updated_at_not_earlier OLD NEW =
     (case updated_at NEW of
        None \<Rightarrow> False
      | Some t \<Rightarrow>
          (case updated_at OLD of None \<Rightarrow> False | Some u \<Rightarrow> u \<le> t) \<and>
          (case created_at NEW of None \<Rightarrow> False | Some c \<Rightarrow> c \<le> t))"

text \<open>
  The rows that go with the organizer whose \<open>id\<close> is \<open>k\<close>, in the words of the
  specification: an event whose \<open>organizer_id\<close> references the organizer, a ticket tier
  whose \<open>event_id\<close> references one of those events, a ticket whose \<open>ticket_tier_id\<close>
  references one of those tiers, a transaction whose \<open>ticket_id\<close> references one of
  those tickets.
\<close>

definition event_of_organizer :: "uuid \<Rightarrow> events_row \<Rightarrow> bool" where
  "event_of_organizer k e = (events_organizer_id e = Some k)"

definition tier_of_organizer :: "database \<Rightarrow> uuid \<Rightarrow> ticket_tiers_row \<Rightarrow> bool" where
  "tier_of_organizer db k t =
     (\<exists>e \<in> set (events db). event_of_organizer k e \<and> sql_eq (ticket_tiers_event_id t) (id_col e))"

definition ticket_of_organizer :: "database \<Rightarrow> uuid \<Rightarrow> tickets_row \<Rightarrow> bool" where
  "ticket_of_organizer db k x =
     (\<exists>t \<in> set (ticket_tiers db).
        tier_of_organizer db k t \<and> sql_eq (tickets_ticket_tier_id x) (id_col t))"

definition transaction_of_organizer :: "database \<Rightarrow> uuid \<Rightarrow> transactions_row \<Rightarrow> bool" where
  "transaction_of_organizer db k y =
     (\<exists>x \<in> set (tickets db).
        ticket_of_organizer db k x \<and> sql_eq (transactions_ticket_id y) (id_col x))"

section \<open>Example data\<close>

text \<open>
  A small database in which every table has rows and every foreign key references a row:
  one user, two organizers with one event each, one ticket tier per event, one ticket per
  tier and one transaction per ticket. The statements of the examples run on it.
\<close>

definition example_database :: database where
  "example_database =
     \<lparr>users =
        [\<lparr>id_col = Some 1, created_at = Some 100, updated_at = Some 100,
          users_name = Some ''Ada'', users_email = Some ''ada@example.org''\<rparr>],
      organizers =
        [\<lparr>id_col = Some 10, created_at = Some 100, updated_at = Some 100,
          organizers_name = Some ''Stellar West Africa'', organizers_description = None,
          organizers_contact_email = Some ''west@example.org''\<rparr>,
         \<lparr>id_col = Some 11, created_at = Some 100, updated_at = Some 100,
          organizers_name = Some ''Stellar India'', organizers_description = None,
          organizers_contact_email = Some ''india@example.org''\<rparr>],
      events =
        [\<lparr>id_col = Some 20, created_at = Some 110, updated_at = Some 110,
          events_organizer_id = Some 10, events_title = Some ''Meetup'',
          events_description = None, events_location = Some ''Lagos'',
          events_start_time = Some 5000, events_end_time = None\<rparr>,
         \<lparr>id_col = Some 21, created_at = Some 110, updated_at = Some 110,
          events_organizer_id = Some 11, events_title = Some ''Workshop'',
          events_description = None, events_location = Some ''Pune'',
          events_start_time = Some 6000, events_end_time = Some 7000\<rparr>],
      ticket_tiers =
        [\<lparr>id_col = Some 30, created_at = Some 120, updated_at = Some 120,
          ticket_tiers_event_id = Some 20, ticket_tiers_name = Some ''General'',
          ticket_tiers_description = None, ticket_tiers_price = Some 2500,
          ticket_tiers_total_quantity = Some 100, ticket_tiers_available_quantity = Some 99\<rparr>,
         \<lparr>id_col = Some 31, created_at = Some 120, updated_at = Some 120,
          ticket_tiers_event_id = Some 21, ticket_tiers_name = Some ''General'',
          ticket_tiers_description = None, ticket_tiers_price = Some 1000,
          ticket_tiers_total_quantity = Some 50, ticket_tiers_available_quantity = Some 49\<rparr>],
      tickets =
        [\<lparr>id_col = Some 40, created_at = Some 130, updated_at = Some 130,
          tickets_user_id = Some 1, tickets_ticket_tier_id = Some 30,
          tickets_status = Some ''active'', tickets_qr_code = None\<rparr>,
         \<lparr>id_col = Some 41, created_at = Some 130, updated_at = Some 130,
          tickets_user_id = Some 1, tickets_ticket_tier_id = Some 31,
          tickets_status = Some ''active'', tickets_qr_code = None\<rparr>],
      transactions =
        [\<lparr>id_col = Some 50, created_at = Some 140, updated_at = Some 140,
          transactions_ticket_id = Some 40, transactions_amount = Some 2500,
          transactions_currency = Some ''USD'', transactions_status = Some ''completed'',
          transactions_stellar_transaction_hash = None\<rparr>,
         \<lparr>id_col = Some 51, created_at = Some 140, updated_at = Some 140,
          transactions_ticket_id = Some 41, transactions_amount = Some 1000,
          transactions_currency = Some ''USD'', transactions_status = Some ''pending'',
          transactions_stellar_transaction_hash = None\<rparr>]\<rparr>"

definition example_session :: session where
  "example_session = \<lparr>NOW = 200, uuid_generate_v4 = 77\<rparr>"

definition example_user :: "string \<Rightarrow> users_insert" where
  "example_user e =
     \<lparr>ins_id = Omitted, ins_created_at = Omitted, ins_updated_at = Omitted,
      ins_users_name = Supplied (Some ''Grace''), ins_users_email = Supplied (Some e)\<rparr>"

definition example_ticket_tier ::
  "uuid \<Rightarrow> integer_t \<Rightarrow> integer_t \<Rightarrow> ticket_tiers_insert" where
  "example_ticket_tier ev tq aq =
     \<lparr>ins_id = Omitted, ins_created_at = Omitted, ins_updated_at = Omitted,
      ins_ticket_tiers_event_id = Supplied (Some ev),
      ins_ticket_tiers_name = Supplied (Some ''VIP''),
      ins_ticket_tiers_description = Omitted,
      ins_ticket_tiers_price = Supplied (Some 9900),
      ins_ticket_tiers_total_quantity = Supplied (Some tq),
      ins_ticket_tiers_available_quantity = Supplied (Some aq)\<rparr>"

definition example_event :: "uuid \<Rightarrow> events_insert" where
  "example_event org =
     \<lparr>ins_id = Omitted, ins_created_at = Omitted, ins_updated_at = Omitted,
      ins_events_organizer_id = Supplied (Some org),
      ins_events_title = Supplied (Some ''Hackathon''),
      ins_events_description = Omitted,
      ins_events_location = Supplied (Some ''Accra''),
      ins_events_start_time = Supplied (Some 9000),
      ins_events_end_time = Omitted\<rparr>"

definition example_ticket :: "uuid \<Rightarrow> uuid \<Rightarrow> string \<Rightarrow> tickets_insert" where
  "example_ticket usr tier st =
     \<lparr>ins_id = Omitted, ins_created_at = Omitted, ins_updated_at = Omitted,
      ins_tickets_user_id = Supplied (Some usr),
      ins_tickets_ticket_tier_id = Supplied (Some tier),
      ins_tickets_status = Supplied (Some st),
      ins_tickets_qr_code = Omitted\<rparr>"

definition example_transaction :: "uuid \<Rightarrow> string \<Rightarrow> transactions_insert" where
  "example_transaction ticket st =
     \<lparr>ins_id = Omitted, ins_created_at = Omitted, ins_updated_at = Omitted,
      ins_transactions_ticket_id = Supplied (Some ticket),
      ins_transactions_amount = Supplied (Some 2500),
      ins_transactions_currency = Omitted,
      ins_transactions_status = Supplied (Some st),
      ins_transactions_stellar_transaction_hash = Omitted\<rparr>"

text \<open>\<open>SET\<close> clauses of the examples, one column each.\<close>

definition set_users_name :: "text_t \<Rightarrow> users_row \<Rightarrow> users_row" where
  "set_users_name n OLD = OLD\<lparr>users_name := Some n\<rparr>"

definition set_organizers_description :: "text_t \<Rightarrow> organizers_row \<Rightarrow> organizers_row" where
  "set_organizers_description d OLD = OLD\<lparr>organizers_description := Some d\<rparr>"

definition set_events_location :: "text_t \<Rightarrow> events_row \<Rightarrow> events_row" where
  "set_events_location l OLD = OLD\<lparr>events_location := Some l\<rparr>"

definition set_ticket_tiers_available_quantity ::
  "integer_t \<Rightarrow> ticket_tiers_row \<Rightarrow> ticket_tiers_row" where
  "set_ticket_tiers_available_quantity q OLD = OLD\<lparr>ticket_tiers_available_quantity := Some q\<rparr>"

definition set_tickets_status :: "text_t \<Rightarrow> tickets_row \<Rightarrow> tickets_row" where
  "set_tickets_status st OLD = OLD\<lparr>tickets_status := Some st\<rparr>"

definition set_transactions_status :: "text_t \<Rightarrow> transactions_row \<Rightarrow> transactions_row" where
  "set_transactions_status st OLD = OLD\<lparr>transactions_status := Some st\<rparr>"

definition set_created_at :: "timestamptz \<Rightarrow> 'a audited_scheme \<Rightarrow> 'a audited_scheme" where
  "set_created_at t OLD = OLD\<lparr>created_at := Some t\<rparr>"

text \<open>
  A user inserted at time 10 with an explicit \<open>updated_at\<close> of 100, into the empty
  database, and the database after that insert.
\<close>

definition session_at :: "timestamptz \<Rightarrow> session" where
  "session_at t = \<lparr>NOW = t, uuid_generate_v4 = 77\<rparr>"

definition postdated_user :: users_insert where
  "postdated_user =
     \<lparr>ins_id = Omitted, ins_created_at = Omitted, ins_updated_at = Supplied (Some 100),
      ins_users_name = Supplied (Some ''Grace''),
      ins_users_email = Supplied (Some ''grace@example.org'')\<rparr>"

definition postdated_database :: database where
  "postdated_database =
     state_after empty_database (insert_users (session_at 10) postdated_user empty_database)"

section \<open>Properties\<close>

subsection \<open>The organizer cards\<close>

text \<open>
  C5. Rendering \<open>OrganizerComponent\<close>, which takes no argument, gives exactly four
  organizer cards, the elements that \<open>cardsData.map\<close> produces, one per entry of
  \<open>cardsData\<close>; their keys are stellar-west-africa, stellar-east-african-community,
  stellar-india and stellar-portugal, in this order.
\<close>

theorem organizer_component_cards:
  "keyed OrganizerComponent = map card_element cardsData \<and>
   length (keyed OrganizerComponent) = 4 \<and>
   map key (keyed OrganizerComponent) =
     [Some ''stellar-west-africa'', Some ''stellar-east-african-community'',
      Some ''stellar-india'', Some ''stellar-portugal'']"
  by (simp add: OrganizerComponent_def cardsData_def card_element_def Button_def)

text \<open>
  C10. In the rendered cards, the description (the text of the \<open>p\<close> element) of the
  stellar-india card and of the stellar-portugal card is the description of the
  stellar-west-africa card, character for character, and says "in West Africa"; the
  description of the stellar-east-african-community card is the only one that differs.
\<close>

theorem organizer_card_descriptions:
  "map (\<lambda>c. (key c, texts_in ''p'' c)) (keyed OrganizerComponent) =
     [(Some ''stellar-west-africa'',
       [''Building and empowering the Stellar ecosystem in West Africa through education, developer support, and real-world blockchain adoption.'']),
      (Some ''stellar-east-african-community'',
       [''Building and empowering the Stellar ecosystem in East Africa through education, developer support, and real-world blockchain adoption.'']),
      (Some ''stellar-india'',
       [''Building and empowering the Stellar ecosystem in West Africa through education, developer support, and real-world blockchain adoption.'']),
      (Some ''stellar-portugal'',
       [''Building and empowering the Stellar ecosystem in West Africa through education, developer support, and real-world blockchain adoption.''])] \<and>
   texts_in ''p'' (keyed OrganizerComponent ! 2) = texts_in ''p'' (keyed OrganizerComponent ! 0) \<and>
   texts_in ''p'' (keyed OrganizerComponent ! 3) = texts_in ''p'' (keyed OrganizerComponent ! 0) \<and>
   texts_in ''p'' (keyed OrganizerComponent ! 1) \<noteq> texts_in ''p'' (keyed OrganizerComponent ! 0)"
  by (simp add: OrganizerComponent_def cardsData_def card_element_def Button_def)

subsection \<open>INSERT: uniqueness, defaults and unconstrained columns\<close>

text \<open>
  C2. An insert into \<open>users\<close> of a row that satisfies the other constraints of the
  table (\<open>id\<close>, \<open>name\<close>, \<open>created_at\<close> and \<open>updated_at\<close> are not NULL) and whose email
  is the email of a row of \<open>users\<close> fails with a uniqueness violation, and the table
  \<open>users\<close> after the failed statement is the table before it. When the email is the email
  of no row, and the \<open>id\<close> the \<open>id\<close> of no row (the primary key), the insert succeeds:
  the new row is appended to \<open>users\<close>.
\<close>

theorem insert_users_email_unique:
  assumes email: "users_email (users_tuple s v) = Some e"
    and name: "users_name (users_tuple s v) \<noteq> None"
    and ident: "id_col (users_tuple s v) \<noteq> None"
    and stamps: "created_at (users_tuple s v) \<noteq> None" "updated_at (users_tuple s v) \<noteq> None"
  shows "(Some e \<in> set (map users_email (users db)) \<longrightarrow>
           (\<exists>err. insert_users s v db = Inl err \<and> is_unique_violation err) \<and>
           users (state_after db (insert_users s v db)) = users db) \<and>
         (Some e \<notin> set (map users_email (users db)) \<and>
          id_col (users_tuple s v) \<notin> set (map id_col (users db)) \<longrightarrow>
           insert_users s v db = Inr (db\<lparr>users := users db @ [users_tuple s v]\<rparr>))"
  using assms
  by (auto simp: insert_users_def users_constraints_def not_null_def unique_key_def
      state_after_def Let_def split: option.splits)

text \<open>
  On the example database: a second user with the email of the first is refused, a user
  with a new email is stored.
\<close>

theorem insert_users_email_unique_witness:
  "(\<exists>err. insert_users example_session (example_user ''ada@example.org'') example_database =
       Inl err \<and> is_unique_violation err) \<and>
   users (state_after example_database
       (insert_users example_session (example_user ''ada@example.org'') example_database)) =
     users example_database \<and>
   insert_users example_session (example_user ''grace@example.org'') example_database =
     Inr (example_database\<lparr>users := users example_database @
       [users_tuple example_session (example_user ''grace@example.org'')]\<rparr>)"
  using insert_users_email_unique
      [of example_session "example_user ''ada@example.org''" "''ada@example.org''"
        example_database]
    insert_users_email_unique
      [of example_session "example_user ''grace@example.org''" "''grace@example.org''"
        example_database]
  by (simp add: example_session_def example_user_def example_database_def users_tuple_def)

text \<open>
  C4. The schema has no constraint that relates or bounds \<open>total_quantity\<close> and
  \<open>available_quantity\<close>: an insert into \<open>ticket_tiers\<close> whose other columns satisfy the
  constraints of the table succeeds whatever the two quantities are, as long as they are
  not NULL, and stores them as given. So there are inserts that succeed with
  \<open>available_quantity\<close> greater than \<open>total_quantity\<close>, and with a negative
  \<open>available_quantity\<close>.
\<close>

theorem ticket_tiers_quantities_unconstrained:
  assumes quantities: "ins_ticket_tiers_total_quantity v = Supplied (Some tq)"
      "ins_ticket_tiers_available_quantity v = Supplied (Some aq)"
    and ident: "id_col (ticket_tiers_tuple s v) = Some i"
      "Some i \<notin> set (map id_col (ticket_tiers db))"
    and event: "ticket_tiers_event_id (ticket_tiers_tuple s v) = Some ev"
      "Some ev \<in> set (map id_col (events db))"
    and name: "ticket_tiers_name (ticket_tiers_tuple s v) \<noteq> None"
    and price: "ticket_tiers_price (ticket_tiers_tuple s v) = Some p" "\<bar>p\<bar> < 10 ^ 10"
    and stamps: "created_at (ticket_tiers_tuple s v) \<noteq> None"
      "updated_at (ticket_tiers_tuple s v) \<noteq> None"
  shows "insert_ticket_tiers s v db =
           Inr (db\<lparr>ticket_tiers := ticket_tiers db @ [ticket_tiers_tuple s v]\<rparr>) \<and>
         ticket_tiers_total_quantity (ticket_tiers_tuple s v) = Some tq \<and>
         ticket_tiers_available_quantity (ticket_tiers_tuple s v) = Some aq"
  using assms
  by (auto simp: insert_ticket_tiers_def ticket_tiers_constraints_def not_null_def
      unique_key_def references_def decimal_10_2_range_def ticket_tiers_tuple_def Let_def
      split: option.splits)

text \<open>
  On the example database: a tier of 10 tickets with 11 available, and a tier of 10
  tickets with -1 available, are both stored.
\<close>

theorem ticket_tiers_quantities_unconstrained_witness:
  "sint (10 :: integer_t) < sint (11 :: integer_t) \<and>
   insert_ticket_tiers example_session (example_ticket_tier 20 10 11) example_database =
     Inr (example_database\<lparr>ticket_tiers := ticket_tiers example_database @
       [ticket_tiers_tuple example_session (example_ticket_tier 20 10 11)]\<rparr>) \<and>
   ticket_tiers_total_quantity (ticket_tiers_tuple example_session (example_ticket_tier 20 10 11)) = Some 10 \<and>
   ticket_tiers_available_quantity (ticket_tiers_tuple example_session (example_ticket_tier 20 10 11)) = Some 11 \<and>
   sint (- 1 :: integer_t) < 0 \<and>
   insert_ticket_tiers example_session (example_ticket_tier 20 10 (- 1)) example_database =
     Inr (example_database\<lparr>ticket_tiers := ticket_tiers example_database @
       [ticket_tiers_tuple example_session (example_ticket_tier 20 10 (- 1))]\<rparr>) \<and>
   ticket_tiers_available_quantity (ticket_tiers_tuple example_session (example_ticket_tier 20 10 (- 1))) = Some (- 1)"
  using ticket_tiers_quantities_unconstrained
      [of "example_ticket_tier 20 10 11" 10 11 example_session 77 example_database 20 9900]
    ticket_tiers_quantities_unconstrained
      [of "example_ticket_tier 20 10 (- 1)" 10 "- 1" example_session 77 example_database 20 9900]
  by (simp add: example_session_def example_ticket_tier_def example_database_def
      ticket_tiers_tuple_def)

subsection \<open>INSERT: foreign keys\<close>

lemma insert_events_orphan:
  "events_organizer_id (events_tuple s ev) = Some org \<and>
   Some org \<notin> set (map id_col (organizers db)) \<longrightarrow>
     (\<exists>err. insert_events s ev db = Inl err \<and>
        (events_constraints (events db) (events_tuple s ev) = None \<longrightarrow>
           is_foreign_key_violation err)) \<and>
     events (state_after db (insert_events s ev db)) = events db"
  by (cases "events_constraints (events db) (events_tuple s ev)")
     (simp_all add: insert_events_def references_def state_after_def Let_def)

lemma insert_ticket_tiers_orphan:
  "ticket_tiers_event_id (ticket_tiers_tuple s tt) = Some evt \<and>
   Some evt \<notin> set (map id_col (events db)) \<longrightarrow>
     (\<exists>err. insert_ticket_tiers s tt db = Inl err \<and>
        (ticket_tiers_constraints (ticket_tiers db) (ticket_tiers_tuple s tt) = None \<longrightarrow>
           is_foreign_key_violation err)) \<and>
     ticket_tiers (state_after db (insert_ticket_tiers s tt db)) = ticket_tiers db"
  by (cases "ticket_tiers_constraints (ticket_tiers db) (ticket_tiers_tuple s tt)")
     (simp_all add: insert_ticket_tiers_def references_def state_after_def Let_def)

lemma insert_tickets_orphan:
  "(tickets_user_id (tickets_tuple s tk) = Some usr \<and>
    Some usr \<notin> set (map id_col (users db))) \<or>
   (tickets_ticket_tier_id (tickets_tuple s tk) = Some tier \<and>
    Some tier \<notin> set (map id_col (ticket_tiers db))) \<longrightarrow>
     (\<exists>err. insert_tickets s tk db = Inl err \<and>
        (tickets_constraints (tickets db) (tickets_tuple s tk) = None \<longrightarrow>
           is_foreign_key_violation err)) \<and>
     tickets (state_after db (insert_tickets s tk db)) = tickets db"
  by (cases "tickets_constraints (tickets db) (tickets_tuple s tk)";
      cases "tickets_user_id (tickets_tuple s tk)")
     (auto simp add: insert_tickets_def references_def state_after_def Let_def)

lemma insert_transactions_orphan:
  "transactions_ticket_id (transactions_tuple s tx) = Some ticket \<and>
   Some ticket \<notin> set (map id_col (tickets db)) \<longrightarrow>
     (\<exists>err. insert_transactions s tx db = Inl err \<and>
        (transactions_constraints (transactions db) (transactions_tuple s tx) = None \<longrightarrow>
           is_foreign_key_violation err)) \<and>
     transactions (state_after db (insert_transactions s tx db)) = transactions db"
  by (cases "transactions_constraints (transactions db) (transactions_tuple s tx)")
     (simp_all add: insert_transactions_def references_def state_after_def Let_def)

text \<open>
  C6. An insert of a row whose foreign key is not the \<open>id\<close> of a row of the parent table
  fails, and the table is after the statement what it was before: into \<open>events\<close> with an
  \<open>organizer_id\<close> that is not in \<open>organizers\<close>, into \<open>ticket_tiers\<close> with an
  \<open>event_id\<close> that is not in \<open>events\<close>, into \<open>tickets\<close> with a \<open>user_id\<close> that is
  not in \<open>users\<close> or a \<open>ticket_tier_id\<close> that is not in \<open>ticket_tiers\<close>, into
  \<open>transactions\<close> with a \<open>ticket_id\<close> that is not in \<open>tickets\<close>. When the row
  satisfies the constraints of its own table (which are checked first), the error is a
  foreign-key violation.
\<close>

theorem orphan_insert_rejected:
  "(events_organizer_id (events_tuple s ev) = Some org \<and>
    Some org \<notin> set (map id_col (organizers db)) \<longrightarrow>
      (\<exists>err. insert_events s ev db = Inl err \<and>
         (events_constraints (events db) (events_tuple s ev) = None \<longrightarrow>
            is_foreign_key_violation err)) \<and>
      events (state_after db (insert_events s ev db)) = events db) \<and>
   (ticket_tiers_event_id (ticket_tiers_tuple s tt) = Some evt \<and>
    Some evt \<notin> set (map id_col (events db)) \<longrightarrow>
      (\<exists>err. insert_ticket_tiers s tt db = Inl err \<and>
         (ticket_tiers_constraints (ticket_tiers db) (ticket_tiers_tuple s tt) = None \<longrightarrow>
            is_foreign_key_violation err)) \<and>
      ticket_tiers (state_after db (insert_ticket_tiers s tt db)) = ticket_tiers db) \<and>
   ((tickets_user_id (tickets_tuple s tk) = Some usr \<and>
     Some usr \<notin> set (map id_col (users db))) \<or>
    (tickets_ticket_tier_id (tickets_tuple s tk) = Some tier \<and>
     Some tier \<notin> set (map id_col (ticket_tiers db))) \<longrightarrow>
      (\<exists>err. insert_tickets s tk db = Inl err \<and>
         (tickets_constraints (tickets db) (tickets_tuple s tk) = None \<longrightarrow>
            is_foreign_key_violation err)) \<and>
      tickets (state_after db (insert_tickets s tk db)) = tickets db) \<and>
   (transactions_ticket_id (transactions_tuple s tx) = Some ticket \<and>
    Some ticket \<notin> set (map id_col (tickets db)) \<longrightarrow>
      (\<exists>err. insert_transactions s tx db = Inl err \<and>
         (transactions_constraints (transactions db) (transactions_tuple s tx) = None \<longrightarrow>
            is_foreign_key_violation err)) \<and>
      transactions (state_after db (insert_transactions s tx db)) = transactions db)"
  by (rule conjI [OF insert_events_orphan conjI [OF insert_ticket_tiers_orphan
        conjI [OF insert_tickets_orphan insert_transactions_orphan]]])

text \<open>
  On the example database, which has no organizer 12, no event 22, no user 2, no ticket
  tier 32 and no ticket 42.
\<close>

theorem orphan_insert_rejected_witness:
  "insert_events example_session (example_event 12) example_database =
     Inl (ForeignKeyViolation ''events'' ''organizer_id'') \<and>
   events (state_after example_database
       (insert_events example_session (example_event 12) example_database)) =
     events example_database \<and>
   insert_ticket_tiers example_session (example_ticket_tier 22 10 10) example_database =
     Inl (ForeignKeyViolation ''ticket_tiers'' ''event_id'') \<and>
   insert_tickets example_session (example_ticket 2 30 ''active'') example_database =
     Inl (ForeignKeyViolation ''tickets'' ''user_id'') \<and>
   insert_tickets example_session (example_ticket 1 32 ''active'') example_database =
     Inl (ForeignKeyViolation ''tickets'' ''ticket_tier_id'') \<and>
   tickets (state_after example_database
       (insert_tickets example_session (example_ticket 1 32 ''active'') example_database)) =
     tickets example_database \<and>
   insert_transactions example_session (example_transaction 42 ''pending'') example_database =
     Inl (ForeignKeyViolation ''transactions'' ''ticket_id'') \<and>
   transactions (state_after example_database
       (insert_transactions example_session (example_transaction 42 ''pending'') example_database)) =
     transactions example_database"
  using orphan_insert_rejected
      [of example_session "example_event 12" 12 example_database
        "example_ticket_tier 22 10 10" 22 "example_ticket 2 30 ''active''" 2 30
        "example_transaction 42 ''pending''" 42]
  by (simp add: example_session_def example_event_def example_ticket_tier_def
      example_ticket_def example_transaction_def example_database_def
      events_tuple_def ticket_tiers_tuple_def tickets_tuple_def transactions_tuple_def
      insert_events_def insert_ticket_tiers_def insert_tickets_def insert_transactions_def
      events_constraints_def ticket_tiers_constraints_def tickets_constraints_def
      transactions_constraints_def not_null_def unique_key_def references_def
      decimal_10_2_range_def state_after_def)

subsection \<open>INSERT: free text and defaults\<close>

lemma insert_tickets_any_status:
  "ins_tickets_status tk = Supplied (Some st) \<and>
   id_col (tickets_tuple s tk) = Some i \<and> Some i \<notin> set (map id_col (tickets db)) \<and>
   tickets_user_id (tickets_tuple s tk) = Some usr \<and>
   Some usr \<in> set (map id_col (users db)) \<and>
   tickets_ticket_tier_id (tickets_tuple s tk) = Some tier \<and>
   Some tier \<in> set (map id_col (ticket_tiers db)) \<and>
   created_at (tickets_tuple s tk) \<noteq> None \<and> updated_at (tickets_tuple s tk) \<noteq> None \<longrightarrow>
     insert_tickets s tk db = Inr (db\<lparr>tickets := tickets db @ [tickets_tuple s tk]\<rparr>) \<and>
     tickets_status (tickets_tuple s tk) = Some st"
  by (auto simp: insert_tickets_def tickets_constraints_def not_null_def unique_key_def
      references_def tickets_tuple_def Let_def split: option.splits)

lemma insert_transactions_any_status:
  "ins_transactions_status tx = Supplied (Some st') \<and>
   id_col (transactions_tuple s tx) = Some j \<and>
   Some j \<notin> set (map id_col (transactions db)) \<and>
   transactions_ticket_id (transactions_tuple s tx) = Some ticket \<and>
   Some ticket \<in> set (map id_col (tickets db)) \<and>
   transactions_amount (transactions_tuple s tx) = Some a \<and> \<bar>a\<bar> < 10 ^ 10 \<and>
   transactions_currency (transactions_tuple s tx) \<noteq> None \<and>
   created_at (transactions_tuple s tx) \<noteq> None \<and>
   updated_at (transactions_tuple s tx) \<noteq> None \<longrightarrow>
     insert_transactions s tx db =
       Inr (db\<lparr>transactions := transactions db @ [transactions_tuple s tx]\<rparr>) \<and>
     transactions_status (transactions_tuple s tx) = Some st'"
  by (auto simp: insert_transactions_def transactions_constraints_def not_null_def
      unique_key_def references_def decimal_10_2_range_def transactions_tuple_def Let_def
      split: option.splits)

text \<open>
  C7. \<open>tickets.status\<close> is free text: for every string \<open>st\<close> that is not NULL, whether
  or not it is one of active, used, cancelled, an insert into \<open>tickets\<close> with this status
  and valid foreign keys (and an \<open>id\<close> that is new, and timestamps that are not NULL)
  succeeds and stores \<open>st\<close>. The same holds for \<open>transactions.status\<close> and every string
  \<open>st'\<close>, whether or not it is one of pending, completed, failed, when the other columns
  of the transaction are valid.
\<close>

theorem status_is_free_text:
  "(ins_tickets_status tk = Supplied (Some st) \<and>
    id_col (tickets_tuple s tk) = Some i \<and> Some i \<notin> set (map id_col (tickets db)) \<and>
    tickets_user_id (tickets_tuple s tk) = Some usr \<and>
    Some usr \<in> set (map id_col (users db)) \<and>
    tickets_ticket_tier_id (tickets_tuple s tk) = Some tier \<and>
    Some tier \<in> set (map id_col (ticket_tiers db)) \<and>
    created_at (tickets_tuple s tk) \<noteq> None \<and> updated_at (tickets_tuple s tk) \<noteq> None \<longrightarrow>
      insert_tickets s tk db = Inr (db\<lparr>tickets := tickets db @ [tickets_tuple s tk]\<rparr>) \<and>
      tickets_status (tickets_tuple s tk) = Some st) \<and>
   (ins_transactions_status tx = Supplied (Some st') \<and>
    id_col (transactions_tuple s tx) = Some j \<and>
    Some j \<notin> set (map id_col (transactions db)) \<and>
    transactions_ticket_id (transactions_tuple s tx) = Some ticket \<and>
    Some ticket \<in> set (map id_col (tickets db)) \<and>
    transactions_amount (transactions_tuple s tx) = Some a \<and> \<bar>a\<bar> < 10 ^ 10 \<and>
    transactions_currency (transactions_tuple s tx) \<noteq> None \<and>
    created_at (transactions_tuple s tx) \<noteq> None \<and>
    updated_at (transactions_tuple s tx) \<noteq> None \<longrightarrow>
      insert_transactions s tx db =
        Inr (db\<lparr>transactions := transactions db @ [transactions_tuple s tx]\<rparr>) \<and>
      transactions_status (transactions_tuple s tx) = Some st')"
  by (rule conjI [OF insert_tickets_any_status insert_transactions_any_status])

text \<open>
  On the example database: a ticket with the status "lost in the post" and a transaction
  with the empty text as status are stored.
\<close>

theorem status_is_free_text_witness:
  "insert_tickets example_session (example_ticket 1 30 ''lost in the post'') example_database =
     Inr (example_database\<lparr>tickets := tickets example_database @
       [tickets_tuple example_session (example_ticket 1 30 ''lost in the post'')]\<rparr>) \<and>
   tickets_status (tickets_tuple example_session (example_ticket 1 30 ''lost in the post'')) =
     Some ''lost in the post'' \<and>
   ''lost in the post'' \<notin> {''active'', ''used'', ''cancelled''} \<and>
   insert_transactions example_session (example_transaction 40 []) example_database =
     Inr (example_database\<lparr>transactions := transactions example_database @
       [transactions_tuple example_session (example_transaction 40 [])]\<rparr>) \<and>
   transactions_status (transactions_tuple example_session (example_transaction 40 [])) =
     Some [] \<and>
   [] \<notin> {''pending'', ''completed'', ''failed''}"
  using status_is_free_text
      [of "example_ticket 1 30 ''lost in the post''" "''lost in the post''" example_session 77
        example_database 1 30 "example_transaction 40 []" "[]" 77 40 2500]
  by (simp add: example_session_def example_ticket_def example_transaction_def
      example_database_def tickets_tuple_def transactions_tuple_def)

text \<open>
  C8. An insert into \<open>transactions\<close> that supplies no \<open>currency\<close>, and whose other
  columns are valid, succeeds, and the row it stores has the currency USD, the default
  of the column.
\<close>

theorem transactions_currency_default:
  assumes currency: "ins_transactions_currency tx = Omitted"
    and ident: "id_col (transactions_tuple s tx) = Some j"
      "Some j \<notin> set (map id_col (transactions db))"
    and ticket: "transactions_ticket_id (transactions_tuple s tx) = Some ticket"
      "Some ticket \<in> set (map id_col (tickets db))"
    and amount: "transactions_amount (transactions_tuple s tx) = Some a" "\<bar>a\<bar> < 10 ^ 10"
    and status: "transactions_status (transactions_tuple s tx) \<noteq> None"
    and stamps: "created_at (transactions_tuple s tx) \<noteq> None"
      "updated_at (transactions_tuple s tx) \<noteq> None"
  shows "insert_transactions s tx db =
           Inr (db\<lparr>transactions := transactions db @ [transactions_tuple s tx]\<rparr>) \<and>
         transactions_currency (transactions_tuple s tx) = Some ''USD''"
  using assms
  by (auto simp: insert_transactions_def transactions_constraints_def not_null_def
      unique_key_def references_def decimal_10_2_range_def transactions_tuple_def Let_def
      split: option.splits)

text \<open>On the example database: a second transaction for ticket 41, no currency given.\<close>

theorem transactions_currency_default_witness:
  "ins_transactions_currency (example_transaction 41 ''pending'') = Omitted \<and>
   insert_transactions example_session (example_transaction 41 ''pending'') example_database =
     Inr (example_database\<lparr>transactions := transactions example_database @
       [transactions_tuple example_session (example_transaction 41 ''pending'')]\<rparr>) \<and>
   transactions_currency (transactions_tuple example_session (example_transaction 41 ''pending'')) =
     Some ''USD''"
  using transactions_currency_default
      [of "example_transaction 41 ''pending''" example_session 77 example_database 41 2500]
  by (simp add: example_session_def example_transaction_def example_database_def
      transactions_tuple_def)

subsection \<open>DELETE: the cascade\<close>

text \<open>
  What a \<open>DELETE\<close> leaves in each table. Deleting row by row, each deletion cascading,
  comes to one deletion of all the rows that reference a deleted row: two deletions in a
  row delete what one deletion of the union deletes, so the loop over the deleted rows is
  the deletion with the disjunction of the conditions.
\<close>

lemma delete_transactions_sel:
  "users (delete_transactions wh db) = users db"
  "organizers (delete_transactions wh db) = organizers db"
  "events (delete_transactions wh db) = events db"
  "ticket_tiers (delete_transactions wh db) = ticket_tiers db"
  "tickets (delete_transactions wh db) = tickets db"
  "transactions (delete_transactions wh db) = filter (\<lambda>y. \<not> wh y) (transactions db)"
  by (simp_all add: delete_transactions_def)

lemma delete_transactions_compose:
  "delete_transactions P (delete_transactions P' db) = delete_transactions (\<lambda>y. P' y \<or> P y) db"
  by (rule database.equality) (simp_all add: delete_transactions_sel)

lemma delete_transactions_none: "delete_transactions (\<lambda>y. False) db = db"
  by (rule database.equality) (simp_all add: delete_transactions_sel)

lemma fold_delete_transactions:
  "fold (\<lambda>OLD. delete_transactions (Q OLD)) olds db =
   delete_transactions (\<lambda>y. \<exists>OLD \<in> set olds. Q OLD y) db"
proof (induction olds arbitrary: db)
  case Nil
  show ?case by (simp add: delete_transactions_none)
next
  case (Cons x xs)
  show ?case by (simp add: Cons.IH delete_transactions_compose)
qed

lemma delete_tickets_sel:
  "users (delete_tickets wh db) = users db"
  "organizers (delete_tickets wh db) = organizers db"
  "events (delete_tickets wh db) = events db"
  "ticket_tiers (delete_tickets wh db) = ticket_tiers db"
  "tickets (delete_tickets wh db) = filter (\<lambda>x. \<not> wh x) (tickets db)"
  "transactions (delete_tickets wh db) =
     filter (\<lambda>y. \<not> (\<exists>x \<in> set (tickets db). wh x \<and> sql_eq (transactions_ticket_id y) (id_col x)))
       (transactions db)"
  by (auto simp add: delete_tickets_def fold_delete_transactions delete_transactions_sel
      intro!: filter_cong)

lemma delete_tickets_compose:
  "delete_tickets P (delete_tickets P' db) = delete_tickets (\<lambda>y. P' y \<or> P y) db"
  by (rule database.equality) (auto simp add: delete_tickets_sel intro!: filter_cong)

lemma delete_tickets_none: "delete_tickets (\<lambda>y. False) db = db"
  by (rule database.equality) (simp_all add: delete_tickets_sel)

lemma fold_delete_tickets:
  "fold (\<lambda>OLD. delete_tickets (Q OLD)) olds db =
   delete_tickets (\<lambda>y. \<exists>OLD \<in> set olds. Q OLD y) db"
proof (induction olds arbitrary: db)
  case Nil
  show ?case by (simp add: delete_tickets_none)
next
  case (Cons x xs)
  show ?case by (simp add: Cons.IH delete_tickets_compose)
qed

lemma delete_ticket_tiers_sel:
  "users (delete_ticket_tiers wh db) = users db"
  "organizers (delete_ticket_tiers wh db) = organizers db"
  "events (delete_ticket_tiers wh db) = events db"
  "ticket_tiers (delete_ticket_tiers wh db) = filter (\<lambda>t. \<not> wh t) (ticket_tiers db)"
  "tickets (delete_ticket_tiers wh db) =
     filter (\<lambda>x. \<not> (\<exists>t \<in> set (ticket_tiers db).
                       wh t \<and> sql_eq (tickets_ticket_tier_id x) (id_col t)))
       (tickets db)"
  "transactions (delete_ticket_tiers wh db) =
     filter (\<lambda>y. \<not> (\<exists>x \<in> set (tickets db).
                       (\<exists>t \<in> set (ticket_tiers db).
                          wh t \<and> sql_eq (tickets_ticket_tier_id x) (id_col t)) \<and>
                       sql_eq (transactions_ticket_id y) (id_col x)))
       (transactions db)"
  by (auto simp add: delete_ticket_tiers_def fold_delete_tickets delete_tickets_sel
      intro!: filter_cong)

lemma delete_ticket_tiers_compose:
  "delete_ticket_tiers P (delete_ticket_tiers P' db) =
   delete_ticket_tiers (\<lambda>y. P' y \<or> P y) db"
  by (rule database.equality; simp add: delete_ticket_tiers_sel; (intro filter_cong refl)?;
      blast?)

lemma delete_ticket_tiers_none: "delete_ticket_tiers (\<lambda>y. False) db = db"
  by (rule database.equality) (simp_all add: delete_ticket_tiers_sel)

lemma fold_delete_ticket_tiers:
  "fold (\<lambda>OLD. delete_ticket_tiers (Q OLD)) olds db =
   delete_ticket_tiers (\<lambda>y. \<exists>OLD \<in> set olds. Q OLD y) db"
proof (induction olds arbitrary: db)
  case Nil
  show ?case by (simp add: delete_ticket_tiers_none)
next
  case (Cons x xs)
  show ?case by (simp add: Cons.IH delete_ticket_tiers_compose)
qed

lemma delete_events_sel:
  "users (delete_events wh db) = users db"
  "organizers (delete_events wh db) = organizers db"
  "events (delete_events wh db) = filter (\<lambda>e. \<not> wh e) (events db)"
  "ticket_tiers (delete_events wh db) =
     filter (\<lambda>t. \<not> (\<exists>e \<in> set (events db). wh e \<and> sql_eq (ticket_tiers_event_id t) (id_col e)))
       (ticket_tiers db)"
  "tickets (delete_events wh db) =
     filter (\<lambda>x. \<not> (\<exists>t \<in> set (ticket_tiers db).
                       (\<exists>e \<in> set (events db).
                          wh e \<and> sql_eq (ticket_tiers_event_id t) (id_col e)) \<and>
                       sql_eq (tickets_ticket_tier_id x) (id_col t)))
       (tickets db)"
  "transactions (delete_events wh db) =
     filter (\<lambda>y. \<not> (\<exists>x \<in> set (tickets db).
                       (\<exists>t \<in> set (ticket_tiers db).
                          (\<exists>e \<in> set (events db).
                             wh e \<and> sql_eq (ticket_tiers_event_id t) (id_col e)) \<and>
                          sql_eq (tickets_ticket_tier_id x) (id_col t)) \<and>
                       sql_eq (transactions_ticket_id y) (id_col x)))
       (transactions db)"
  by (auto simp add: delete_events_def fold_delete_ticket_tiers delete_ticket_tiers_sel
      intro!: filter_cong)

lemma delete_events_compose:
  "delete_events P (delete_events P' db) = delete_events (\<lambda>y. P' y \<or> P y) db"
  by (rule database.equality; simp add: delete_events_sel; (intro filter_cong refl)?;
      blast?)

lemma delete_events_none: "delete_events (\<lambda>y. False) db = db"
  by (rule database.equality) (simp_all add: delete_events_sel)

lemma fold_delete_events:
  "fold (\<lambda>OLD. delete_events (Q OLD)) olds db =
   delete_events (\<lambda>y. \<exists>OLD \<in> set olds. Q OLD y) db"
proof (induction olds arbitrary: db)
  case Nil
  show ?case by (simp add: delete_events_none)
next
  case (Cons x xs)
  show ?case by (simp add: Cons.IH delete_events_compose)
qed

lemma delete_organizers_sel:
  "users (delete_organizers wh db) = users db"
  "organizers (delete_organizers wh db) = filter (\<lambda>r. \<not> wh r) (organizers db)"
  "events (delete_organizers wh db) =
     filter (\<lambda>e. \<not> (\<exists>r \<in> set (organizers db). wh r \<and> sql_eq (events_organizer_id e) (id_col r)))
       (events db)"
  "ticket_tiers (delete_organizers wh db) =
     filter (\<lambda>t. \<not> (\<exists>e \<in> set (events db).
                       (\<exists>r \<in> set (organizers db).
                          wh r \<and> sql_eq (events_organizer_id e) (id_col r)) \<and>
                       sql_eq (ticket_tiers_event_id t) (id_col e)))
       (ticket_tiers db)"
  "tickets (delete_organizers wh db) =
     filter (\<lambda>x. \<not> (\<exists>t \<in> set (ticket_tiers db).
                       (\<exists>e \<in> set (events db).
                          (\<exists>r \<in> set (organizers db).
                             wh r \<and> sql_eq (events_organizer_id e) (id_col r)) \<and>
                          sql_eq (ticket_tiers_event_id t) (id_col e)) \<and>
                       sql_eq (tickets_ticket_tier_id x) (id_col t)))
       (tickets db)"
  "transactions (delete_organizers wh db) =
     filter (\<lambda>y. \<not> (\<exists>x \<in> set (tickets db).
                       (\<exists>t \<in> set (ticket_tiers db).
                          (\<exists>e \<in> set (events db).
                             (\<exists>r \<in> set (organizers db).
                                wh r \<and> sql_eq (events_organizer_id e) (id_col r)) \<and>
                             sql_eq (ticket_tiers_event_id t) (id_col e)) \<and>
                          sql_eq (tickets_ticket_tier_id x) (id_col t)) \<and>
                       sql_eq (transactions_ticket_id y) (id_col x)))
       (transactions db)"
  by (auto simp add: delete_organizers_def fold_delete_events delete_events_sel
      intro!: filter_cong)

lemma where_id_iff: "where_id k r = (id_col r = Some k)"
  by (auto simp add: where_id_def sql_eq_def)

lemma organizer_events:
  assumes "Some k \<in> set (map id_col (organizers db))"
  shows "(\<exists>OLD \<in> set (organizers db).
            where_id k OLD \<and> sql_eq (events_organizer_id e) (id_col OLD)) =
         event_of_organizer k e"
  using assms by (auto simp add: event_of_organizer_def where_id_iff sql_eq_def)

text \<open>
  C1. For an organizer row, with \<open>id\<close> \<open>k\<close>, \<open>DELETE FROM organizers WHERE id = k\<close>
  removes the organizer, every event whose \<open>organizer_id\<close> references it, every ticket
  tier whose \<open>event_id\<close> references one of those events, every ticket whose
  \<open>ticket_tier_id\<close> references one of those tiers and every transaction whose
  \<open>ticket_id\<close> references one of those tickets. No other row is removed: every table
  keeps its other rows, in their order, and \<open>users\<close> keeps all of its rows.
\<close>

theorem delete_organizer_cascades:
  assumes "Some k \<in> set (map id_col (organizers db))"
  shows "organizers (delete_organizers (where_id k) db) =
           filter (\<lambda>r. \<not> where_id k r) (organizers db) \<and>
         events (delete_organizers (where_id k) db) =
           filter (\<lambda>e. \<not> event_of_organizer k e) (events db) \<and>
         ticket_tiers (delete_organizers (where_id k) db) =
           filter (\<lambda>t. \<not> tier_of_organizer db k t) (ticket_tiers db) \<and>
         tickets (delete_organizers (where_id k) db) =
           filter (\<lambda>x. \<not> ticket_of_organizer db k x) (tickets db) \<and>
         transactions (delete_organizers (where_id k) db) =
           filter (\<lambda>y. \<not> transaction_of_organizer db k y) (transactions db) \<and>
         users (delete_organizers (where_id k) db) = users db"
  by (simp add: delete_organizers_sel organizer_events [OF assms] tier_of_organizer_def
      ticket_of_organizer_def transaction_of_organizer_def)

text \<open>
  On the example database, deleting organizer 10 leaves organizer 11 and what belongs to
  it: event 21, tier 31, ticket 41 and transaction 51.
\<close>

theorem delete_organizer_cascades_witness:
  "Some 10 \<in> set (map id_col (organizers example_database)) \<and>
   map id_col (organizers (delete_organizers (where_id 10) example_database)) = [Some 11] \<and>
   map id_col (events (delete_organizers (where_id 10) example_database)) = [Some 21] \<and>
   map id_col (ticket_tiers (delete_organizers (where_id 10) example_database)) = [Some 31] \<and>
   map id_col (tickets (delete_organizers (where_id 10) example_database)) = [Some 41] \<and>
   map id_col (transactions (delete_organizers (where_id 10) example_database)) = [Some 51] \<and>
   users (delete_organizers (where_id 10) example_database) = users example_database"
  using delete_organizer_cascades [of 10 example_database]
  by (simp add: example_database_def event_of_organizer_def tier_of_organizer_def
      ticket_of_organizer_def transaction_of_organizer_def where_id_def sql_eq_def)

subsection \<open>UPDATE: the trigger\<close>

text \<open>
  A successful \<open>UPDATE\<close> changes its own table only, row by row: a row that the \<open>WHERE\<close>
  clause selects becomes what the trigger returns for the row of the \<open>SET\<close> clause, any
  other row stays.
\<close>

lemma update_rows_result:
  "update_rows wh set_cols before_update constraints seen todo = Inr rows \<Longrightarrow>
   rows = seen @ map (\<lambda>OLD. if wh OLD then before_update (set_cols OLD) else OLD) todo"
proof (induction todo arbitrary: seen)
  case Nil
  then show ?case by simp
next
  case (Cons OLD rest)
  show ?case
  proof (cases "wh OLD")
    case True
    with Cons.prems
    have "update_rows wh set_cols before_update constraints
            (seen @ [before_update (set_cols OLD)]) rest = Inr rows"
      by (simp add: Let_def split: option.splits)
    from Cons.IH [OF this] True show ?thesis by simp
  next
    case False
    with Cons.prems
    have "update_rows wh set_cols before_update constraints (seen @ [OLD]) rest = Inr rows"
      by simp
    from Cons.IH [OF this] False show ?thesis by simp
  qed
qed

lemma update_users_result:
  assumes "update_users s wh set_cols db = Inr db'"
  shows "db' = db\<lparr>users :=
           map (\<lambda>OLD. if wh OLD then update_updated_at_column s (set_cols OLD) else OLD)
             (users db)\<rparr>"
  using assms
  by (auto simp add: update_users_def update_users_updated_at_def
      split: sum.splits option.splits dest!: update_rows_result)

lemma update_organizers_result:
  assumes "update_organizers s wh set_cols db = Inr db'"
  shows "db' = db\<lparr>organizers :=
           map (\<lambda>OLD. if wh OLD then update_updated_at_column s (set_cols OLD) else OLD)
             (organizers db)\<rparr>"
  using assms
  by (auto simp add: update_organizers_def update_organizers_updated_at_def
      split: sum.splits option.splits dest!: update_rows_result)

lemma update_events_result:
  assumes "update_events s wh set_cols db = Inr db'"
  shows "db' = db\<lparr>events :=
           map (\<lambda>OLD. if wh OLD then update_updated_at_column s (set_cols OLD) else OLD)
             (events db)\<rparr>"
  using assms
  by (auto simp add: update_events_def update_events_updated_at_def
      split: sum.splits option.splits dest!: update_rows_result)

lemma update_ticket_tiers_result:
  assumes "update_ticket_tiers s wh set_cols db = Inr db'"
  shows "db' = db\<lparr>ticket_tiers :=
           map (\<lambda>OLD. if wh OLD then update_updated_at_column s (set_cols OLD) else OLD)
             (ticket_tiers db)\<rparr>"
  using assms
  by (auto simp add: update_ticket_tiers_def update_ticket_tiers_updated_at_def
      split: sum.splits option.splits dest!: update_rows_result)

lemma update_tickets_result:
  assumes "update_tickets s wh set_cols db = Inr db'"
  shows "db' = db\<lparr>tickets :=
           map (\<lambda>OLD. if wh OLD then update_updated_at_column s (set_cols OLD) else OLD)
             (tickets db)\<rparr>"
  using assms
  by (auto simp add: update_tickets_def update_tickets_updated_at_def
      split: sum.splits option.splits dest!: update_rows_result)

lemma update_transactions_result:
  assumes "update_transactions s wh set_cols db = Inr db'"
  shows "db' = db\<lparr>transactions :=
           map (\<lambda>OLD. if wh OLD then update_updated_at_column s (set_cols OLD) else OLD)
             (transactions db)\<rparr>"
  using assms
  by (auto simp add: update_transactions_def update_transactions_updated_at_def
      split: sum.splits option.splits dest!: update_rows_result)

lemma trigger_frame:
  "id_col (update_updated_at_column s NEW) = id_col NEW \<and>
   created_at (update_updated_at_column s NEW) = created_at NEW \<and>
   audited.more (update_updated_at_column s NEW) = audited.more NEW"
  by (simp add: update_updated_at_column_def)

lemma update_users_frame:
  "update_users s wh_u set_u db = Inr db_u \<and> i < length (users db) \<longrightarrow>
     length (users db_u) = length (users db) \<and>
     (\<not> wh_u (users db ! i) \<longrightarrow> users db_u ! i = users db ! i) \<and>
     (wh_u (users db ! i) \<longrightarrow>
        id_col (users db_u ! i) = id_col (set_u (users db ! i)) \<and>
        users_name (users db_u ! i) = users_name (set_u (users db ! i)) \<and>
        users_email (users db_u ! i) = users_email (set_u (users db ! i)) \<and>
        created_at (users db_u ! i) = created_at (set_u (users db ! i)))"
  by (auto dest!: update_users_result simp add: update_updated_at_column_def)

lemma update_organizers_frame:
  "update_organizers s wh_o set_o db = Inr db_o \<and> i < length (organizers db) \<longrightarrow>
     length (organizers db_o) = length (organizers db) \<and>
     (\<not> wh_o (organizers db ! i) \<longrightarrow> organizers db_o ! i = organizers db ! i) \<and>
     (wh_o (organizers db ! i) \<longrightarrow>
        id_col (organizers db_o ! i) = id_col (set_o (organizers db ! i)) \<and>
        organizers_name (organizers db_o ! i) = organizers_name (set_o (organizers db ! i)) \<and>
        organizers_description (organizers db_o ! i) = organizers_description (set_o (organizers db ! i)) \<and>
        organizers_contact_email (organizers db_o ! i) = organizers_contact_email (set_o (organizers db ! i)) \<and>
        created_at (organizers db_o ! i) = created_at (set_o (organizers db ! i)))"
  by (auto dest!: update_organizers_result simp add: update_updated_at_column_def)

lemma update_events_frame:
  "update_events s wh_e set_e db = Inr db_e \<and> i < length (events db) \<longrightarrow>
     length (events db_e) = length (events db) \<and>
     (\<not> wh_e (events db ! i) \<longrightarrow> events db_e ! i = events db ! i) \<and>
     (wh_e (events db ! i) \<longrightarrow>
        id_col (events db_e ! i) = id_col (set_e (events db ! i)) \<and>
        events_organizer_id (events db_e ! i) = events_organizer_id (set_e (events db ! i)) \<and>
        events_title (events db_e ! i) = events_title (set_e (events db ! i)) \<and>
        events_description (events db_e ! i) = events_description (set_e (events db ! i)) \<and>
        events_location (events db_e ! i) = events_location (set_e (events db ! i)) \<and>
        events_start_time (events db_e ! i) = events_start_time (set_e (events db ! i)) \<and>
        events_end_time (events db_e ! i) = events_end_time (set_e (events db ! i)) \<and>
        created_at (events db_e ! i) = created_at (set_e (events db ! i)))"
  by (auto dest!: update_events_result simp add: update_updated_at_column_def)

lemma update_ticket_tiers_frame:
  "update_ticket_tiers s wh_t set_t db = Inr db_t \<and> i < length (ticket_tiers db) \<longrightarrow>
     length (ticket_tiers db_t) = length (ticket_tiers db) \<and>
     (\<not> wh_t (ticket_tiers db ! i) \<longrightarrow> ticket_tiers db_t ! i = ticket_tiers db ! i) \<and>
     (wh_t (ticket_tiers db ! i) \<longrightarrow>
        id_col (ticket_tiers db_t ! i) = id_col (set_t (ticket_tiers db ! i)) \<and>
        ticket_tiers_event_id (ticket_tiers db_t ! i) = ticket_tiers_event_id (set_t (ticket_tiers db ! i)) \<and>
        ticket_tiers_name (ticket_tiers db_t ! i) = ticket_tiers_name (set_t (ticket_tiers db ! i)) \<and>
        ticket_tiers_description (ticket_tiers db_t ! i) = ticket_tiers_description (set_t (ticket_tiers db ! i)) \<and>
        ticket_tiers_price (ticket_tiers db_t ! i) = ticket_tiers_price (set_t (ticket_tiers db ! i)) \<and>
        ticket_tiers_total_quantity (ticket_tiers db_t ! i) = ticket_tiers_total_quantity (set_t (ticket_tiers db ! i)) \<and>
        ticket_tiers_available_quantity (ticket_tiers db_t ! i) = ticket_tiers_available_quantity (set_t (ticket_tiers db ! i)) \<and>
        created_at (ticket_tiers db_t ! i) = created_at (set_t (ticket_tiers db ! i)))"
  by (auto dest!: update_ticket_tiers_result simp add: update_updated_at_column_def)

lemma update_tickets_frame:
  "update_tickets s wh_k set_k db = Inr db_k \<and> i < length (tickets db) \<longrightarrow>
     length (tickets db_k) = length (tickets db) \<and>
     (\<not> wh_k (tickets db ! i) \<longrightarrow> tickets db_k ! i = tickets db ! i) \<and>
     (wh_k (tickets db ! i) \<longrightarrow>
        id_col (tickets db_k ! i) = id_col (set_k (tickets db ! i)) \<and>
        tickets_user_id (tickets db_k ! i) = tickets_user_id (set_k (tickets db ! i)) \<and>
        tickets_ticket_tier_id (tickets db_k ! i) = tickets_ticket_tier_id (set_k (tickets db ! i)) \<and>
        tickets_status (tickets db_k ! i) = tickets_status (set_k (tickets db ! i)) \<and>
        tickets_qr_code (tickets db_k ! i) = tickets_qr_code (set_k (tickets db ! i)) \<and>
        created_at (tickets db_k ! i) = created_at (set_k (tickets db ! i)))"
  by (auto dest!: update_tickets_result simp add: update_updated_at_column_def)

lemma update_transactions_frame:
  "update_transactions s wh_x set_x db = Inr db_x \<and> i < length (transactions db) \<longrightarrow>
     length (transactions db_x) = length (transactions db) \<and>
     (\<not> wh_x (transactions db ! i) \<longrightarrow> transactions db_x ! i = transactions db ! i) \<and>
     (wh_x (transactions db ! i) \<longrightarrow>
        id_col (transactions db_x ! i) = id_col (set_x (transactions db ! i)) \<and>
        transactions_ticket_id (transactions db_x ! i) = transactions_ticket_id (set_x (transactions db ! i)) \<and>
        transactions_amount (transactions db_x ! i) = transactions_amount (set_x (transactions db ! i)) \<and>
        transactions_currency (transactions db_x ! i) = transactions_currency (set_x (transactions db ! i)) \<and>
        transactions_status (transactions db_x ! i) = transactions_status (set_x (transactions db ! i)) \<and>
        transactions_stellar_transaction_hash (transactions db_x ! i) = transactions_stellar_transaction_hash (set_x (transactions db ! i)) \<and>
        created_at (transactions db_x ! i) = created_at (set_x (transactions db ! i)))"
  by (auto dest!: update_transactions_result simp add: update_updated_at_column_def)

text \<open>
  C9. The trigger function changes \<open>updated_at\<close> and nothing else: the row it returns
  has the \<open>id\<close>, the \<open>created_at\<close> and the columns of the table itself (the rest of
  the record) of the row it was given. After a successful update of
  any of the six tables the table has as many rows as before; a row that the statement
  does not select is unchanged; and in a row it selects, every column other than
  \<open>updated_at\<close> has the value of the \<open>SET\<close> clause, which is the previous value for
  a column the clause does not mention.
\<close>

theorem update_changes_only_updated_at:
  "(id_col (update_updated_at_column s NEW) = id_col NEW \<and>
    created_at (update_updated_at_column s NEW) = created_at NEW \<and>
    audited.more (update_updated_at_column s NEW) = audited.more NEW) \<and>
   (update_users s wh_u set_u db = Inr db_u \<and> i < length (users db) \<longrightarrow>
      length (users db_u) = length (users db) \<and>
      (\<not> wh_u (users db ! i) \<longrightarrow> users db_u ! i = users db ! i) \<and>
      (wh_u (users db ! i) \<longrightarrow>
         id_col (users db_u ! i) = id_col (set_u (users db ! i)) \<and>
         users_name (users db_u ! i) = users_name (set_u (users db ! i)) \<and>
         users_email (users db_u ! i) = users_email (set_u (users db ! i)) \<and>
         created_at (users db_u ! i) = created_at (set_u (users db ! i)))) \<and>
   (update_organizers s wh_o set_o db = Inr db_o \<and> i < length (organizers db) \<longrightarrow>
      length (organizers db_o) = length (organizers db) \<and>
      (\<not> wh_o (organizers db ! i) \<longrightarrow> organizers db_o ! i = organizers db ! i) \<and>
      (wh_o (organizers db ! i) \<longrightarrow>
         id_col (organizers db_o ! i) = id_col (set_o (organizers db ! i)) \<and>
         organizers_name (organizers db_o ! i) = organizers_name (set_o (organizers db ! i)) \<and>
         organizers_description (organizers db_o ! i) = organizers_description (set_o (organizers db ! i)) \<and>
         organizers_contact_email (organizers db_o ! i) = organizers_contact_email (set_o (organizers db ! i)) \<and>
         created_at (organizers db_o ! i) = created_at (set_o (organizers db ! i)))) \<and>
   (update_events s wh_e set_e db = Inr db_e \<and> i < length (events db) \<longrightarrow>
      length (events db_e) = length (events db) \<and>
      (\<not> wh_e (events db ! i) \<longrightarrow> events db_e ! i = events db ! i) \<and>
      (wh_e (events db ! i) \<longrightarrow>
         id_col (events db_e ! i) = id_col (set_e (events db ! i)) \<and>
         events_organizer_id (events db_e ! i) = events_organizer_id (set_e (events db ! i)) \<and>
         events_title (events db_e ! i) = events_title (set_e (events db ! i)) \<and>
         events_description (events db_e ! i) = events_description (set_e (events db ! i)) \<and>
         events_location (events db_e ! i) = events_location (set_e (events db ! i)) \<and>
         events_start_time (events db_e ! i) = events_start_time (set_e (events db ! i)) \<and>
         events_end_time (events db_e ! i) = events_end_time (set_e (events db ! i)) \<and>
         created_at (events db_e ! i) = created_at (set_e (events db ! i)))) \<and>
   (update_ticket_tiers s wh_t set_t db = Inr db_t \<and> i < length (ticket_tiers db) \<longrightarrow>
      length (ticket_tiers db_t) = length (ticket_tiers db) \<and>
      (\<not> wh_t (ticket_tiers db ! i) \<longrightarrow> ticket_tiers db_t ! i = ticket_tiers db ! i) \<and>
      (wh_t (ticket_tiers db ! i) \<longrightarrow>
         id_col (ticket_tiers db_t ! i) = id_col (set_t (ticket_tiers db ! i)) \<and>
         ticket_tiers_event_id (ticket_tiers db_t ! i) = ticket_tiers_event_id (set_t (ticket_tiers db ! i)) \<and>
         ticket_tiers_name (ticket_tiers db_t ! i) = ticket_tiers_name (set_t (ticket_tiers db ! i)) \<and>
         ticket_tiers_description (ticket_tiers db_t ! i) = ticket_tiers_description (set_t (ticket_tiers db ! i)) \<and>
         ticket_tiers_price (ticket_tiers db_t ! i) = ticket_tiers_price (set_t (ticket_tiers db ! i)) \<and>
         ticket_tiers_total_quantity (ticket_tiers db_t ! i) = ticket_tiers_total_quantity (set_t (ticket_tiers db ! i)) \<and>
         ticket_tiers_available_quantity (ticket_tiers db_t ! i) = ticket_tiers_available_quantity (set_t (ticket_tiers db ! i)) \<and>
         created_at (ticket_tiers db_t ! i) = created_at (set_t (ticket_tiers db ! i)))) \<and>
   (update_tickets s wh_k set_k db = Inr db_k \<and> i < length (tickets db) \<longrightarrow>
      length (tickets db_k) = length (tickets db) \<and>
      (\<not> wh_k (tickets db ! i) \<longrightarrow> tickets db_k ! i = tickets db ! i) \<and>
      (wh_k (tickets db ! i) \<longrightarrow>
         id_col (tickets db_k ! i) = id_col (set_k (tickets db ! i)) \<and>
         tickets_user_id (tickets db_k ! i) = tickets_user_id (set_k (tickets db ! i)) \<and>
         tickets_ticket_tier_id (tickets db_k ! i) = tickets_ticket_tier_id (set_k (tickets db ! i)) \<and>
         tickets_status (tickets db_k ! i) = tickets_status (set_k (tickets db ! i)) \<and>
         tickets_qr_code (tickets db_k ! i) = tickets_qr_code (set_k (tickets db ! i)) \<and>
         created_at (tickets db_k ! i) = created_at (set_k (tickets db ! i)))) \<and>
   (update_transactions s wh_x set_x db = Inr db_x \<and> i < length (transactions db) \<longrightarrow>
      length (transactions db_x) = length (transactions db) \<and>
      (\<not> wh_x (transactions db ! i) \<longrightarrow> transactions db_x ! i = transactions db ! i) \<and>
      (wh_x (transactions db ! i) \<longrightarrow>
         id_col (transactions db_x ! i) = id_col (set_x (transactions db ! i)) \<and>
         transactions_ticket_id (transactions db_x ! i) = transactions_ticket_id (set_x (transactions db ! i)) \<and>
         transactions_amount (transactions db_x ! i) = transactions_amount (set_x (transactions db ! i)) \<and>
         transactions_currency (transactions db_x ! i) = transactions_currency (set_x (transactions db ! i)) \<and>
         transactions_status (transactions db_x ! i) = transactions_status (set_x (transactions db ! i)) \<and>
         transactions_stellar_transaction_hash (transactions db_x ! i) = transactions_stellar_transaction_hash (set_x (transactions db ! i)) \<and>
         created_at (transactions db_x ! i) = created_at (set_x (transactions db ! i))))"
  by (rule conjI [OF trigger_frame conjI [OF update_users_frame
        conjI [OF update_organizers_frame conjI [OF update_events_frame
        conjI [OF update_ticket_tiers_frame
        conjI [OF update_tickets_frame update_transactions_frame]]]]]])

text \<open>
  On the example database, at time 200: one statement per table, each changing one column
  of the first row. The row stored is the old row with that column and \<open>updated_at\<close>
  changed; the second row is as it was.
\<close>

theorem update_changes_only_updated_at_witness:
  "update_users example_session (where_id 1) (set_users_name ''Ada L.'') example_database =
     Inr (example_database\<lparr>users :=
       [(users example_database ! 0)\<lparr>users_name := Some ''Ada L.'', updated_at := Some 200\<rparr>]\<rparr>) \<and>
   update_organizers example_session (where_id 10) (set_organizers_description ''Lagos chapter'') example_database =
     Inr (example_database\<lparr>organizers :=
       [(organizers example_database ! 0)\<lparr>organizers_description := Some ''Lagos chapter'', updated_at := Some 200\<rparr>,
        organizers example_database ! 1]\<rparr>) \<and>
   update_events example_session (where_id 20) (set_events_location ''Abuja'') example_database =
     Inr (example_database\<lparr>events :=
       [(events example_database ! 0)\<lparr>events_location := Some ''Abuja'', updated_at := Some 200\<rparr>,
        events example_database ! 1]\<rparr>) \<and>
   update_ticket_tiers example_session (where_id 30) (set_ticket_tiers_available_quantity 98) example_database =
     Inr (example_database\<lparr>ticket_tiers :=
       [(ticket_tiers example_database ! 0)\<lparr>ticket_tiers_available_quantity := Some 98, updated_at := Some 200\<rparr>,
        ticket_tiers example_database ! 1]\<rparr>) \<and>
   update_tickets example_session (where_id 40) (set_tickets_status ''used'') example_database =
     Inr (example_database\<lparr>tickets :=
       [(tickets example_database ! 0)\<lparr>tickets_status := Some ''used'', updated_at := Some 200\<rparr>,
        tickets example_database ! 1]\<rparr>) \<and>
   update_transactions example_session (where_id 50) (set_transactions_status ''failed'') example_database =
     Inr (example_database\<lparr>transactions :=
       [(transactions example_database ! 0)\<lparr>transactions_status := Some ''failed'', updated_at := Some 200\<rparr>,
        transactions example_database ! 1]\<rparr>)"
  using update_changes_only_updated_at
      [where s = example_session and db = example_database and i = 0
        and wh_u = "where_id 1" and set_u = "set_users_name ''Ada L.''"
        and wh_o = "where_id 10" and set_o = "set_organizers_description ''Lagos chapter''"
        and wh_e = "where_id 20" and set_e = "set_events_location ''Abuja''"
        and wh_t = "where_id 30" and set_t = "set_ticket_tiers_available_quantity 98"
        and wh_k = "where_id 40" and set_k = "set_tickets_status ''used''"
        and wh_x = "where_id 50" and set_x = "set_transactions_status ''failed''"]
    update_changes_only_updated_at
      [where s = example_session and db = example_database and i = 1
        and wh_u = "where_id 1" and set_u = "set_users_name ''Ada L.''"
        and wh_o = "where_id 10" and set_o = "set_organizers_description ''Lagos chapter''"
        and wh_e = "where_id 20" and set_e = "set_events_location ''Abuja''"
        and wh_t = "where_id 30" and set_t = "set_ticket_tiers_available_quantity 98"
        and wh_k = "where_id 40" and set_k = "set_tickets_status ''used''"
        and wh_x = "where_id 50" and set_x = "set_transactions_status ''failed''"]
  by (simp add: example_session_def example_database_def where_id_def sql_eq_def set_users_name_def
      set_organizers_description_def set_events_location_def
      set_ticket_tiers_available_quantity_def set_tickets_status_def
      set_transactions_status_def update_users_def update_organizers_def update_events_def
      update_ticket_tiers_def update_tickets_def update_transactions_def
      update_users_updated_at_def update_organizers_updated_at_def
      update_events_updated_at_def update_ticket_tiers_updated_at_def
      update_tickets_updated_at_def update_transactions_updated_at_def
      update_updated_at_column_def users_constraints_def organizers_constraints_def
      events_constraints_def ticket_tiers_constraints_def tickets_constraints_def
      transactions_constraints_def not_null_def unique_key_def decimal_10_2_range_def
      references_changed_def references_def no_action_def Let_def)

text \<open>
  C3, as the specification states it, does not hold. The trigger stores the current time,
  whatever the row held before, and nothing in the schema keeps a row from holding a later
  time: an \<open>INSERT\<close> may give \<open>updated_at\<close> or \<open>created_at\<close> explicitly, and an
  \<open>UPDATE\<close> may set \<open>created_at\<close>. A user is inserted at time 10 with \<open>updated_at\<close>
  100; an update at time 50 succeeds and stores \<open>updated_at\<close> 50, earlier than the
  previous value. And on the example database an update at time 200 that sets
  \<open>created_at\<close> to 500 succeeds and stores \<open>updated_at\<close> 200, earlier than
  \<open>created_at\<close>.
\<close>

theorem updated_at_can_go_back:
  "insert_users (session_at 10) postdated_user empty_database = Inr postdated_database \<and>
   updated_at (users postdated_database ! 0) = Some 100 \<and>
   \<not> isl (update_users (session_at 50) every_row (set_users_name ''Grace H.'')
      postdated_database) \<and>
   updated_at
     (users (state_after postdated_database
        (update_users (session_at 50) every_row (set_users_name ''Grace H.'')
           postdated_database)) ! 0) = Some 50 \<and>
   \<not> updated_at_not_earlier (users postdated_database ! 0)
     (users (state_after postdated_database
        (update_users (session_at 50) every_row (set_users_name ''Grace H.'')
           postdated_database)) ! 0) \<and>
   \<not> isl (update_users (session_at 200) (where_id 1) (set_created_at 500) example_database) \<and>
   created_at
     (users (state_after example_database
        (update_users (session_at 200) (where_id 1) (set_created_at 500) example_database)) ! 0) =
     Some 500 \<and>
   updated_at
     (users (state_after example_database
        (update_users (session_at 200) (where_id 1) (set_created_at 500) example_database)) ! 0) =
     Some 200 \<and>
   \<not> updated_at_not_earlier (users example_database ! 0)
     (users (state_after example_database
        (update_users (session_at 200) (where_id 1) (set_created_at 500) example_database)) ! 0)"
  by (simp add: session_at_def postdated_user_def postdated_database_def empty_database_def
      example_database_def every_row_def where_id_def sql_eq_def set_users_name_def
      set_created_at_def insert_users_def users_tuple_def update_users_def
      update_users_updated_at_def update_updated_at_column_def users_constraints_def
      not_null_def unique_key_def no_action_def state_after_def updated_at_not_earlier_def
      Let_def)

lemma trigger_updated_at:
  "updated_at (update_updated_at_column s NEW) = Some (NOW s)"
  by (simp add: update_updated_at_column_def)

lemma trigger_not_earlier:
  assumes "updated_at OLD = Some u"
    and "created_at (update_updated_at_column s NEW) = Some c"
  shows "updated_at_not_earlier OLD (update_updated_at_column s NEW) =
         (u \<le> NOW s \<and> c \<le> NOW s)"
  using assms by (simp add: update_updated_at_column_def updated_at_not_earlier_def)

lemma update_users_stamps:
  "update_users s wh_u set_u db = Inr db_u \<and> i < length (users db) \<and>
   wh_u (users db ! i) \<and> updated_at (users db ! i) = Some u \<and>
   created_at (users db_u ! i) = Some c \<longrightarrow>
     updated_at (users db_u ! i) = Some (NOW s) \<and>
     updated_at_not_earlier (users db ! i) (users db_u ! i) = (u \<le> NOW s \<and> c \<le> NOW s)"
  by (clarsimp dest!: update_users_result simp add: trigger_updated_at trigger_not_earlier)

lemma update_organizers_stamps:
  "update_organizers s wh_o set_o db = Inr db_o \<and> i < length (organizers db) \<and>
   wh_o (organizers db ! i) \<and> updated_at (organizers db ! i) = Some u \<and>
   created_at (organizers db_o ! i) = Some c \<longrightarrow>
     updated_at (organizers db_o ! i) = Some (NOW s) \<and>
     updated_at_not_earlier (organizers db ! i) (organizers db_o ! i) = (u \<le> NOW s \<and> c \<le> NOW s)"
  by (clarsimp dest!: update_organizers_result simp add: trigger_updated_at trigger_not_earlier)

lemma update_events_stamps:
  "update_events s wh_e set_e db = Inr db_e \<and> i < length (events db) \<and>
   wh_e (events db ! i) \<and> updated_at (events db ! i) = Some u \<and>
   created_at (events db_e ! i) = Some c \<longrightarrow>
     updated_at (events db_e ! i) = Some (NOW s) \<and>
     updated_at_not_earlier (events db ! i) (events db_e ! i) = (u \<le> NOW s \<and> c \<le> NOW s)"
  by (clarsimp dest!: update_events_result simp add: trigger_updated_at trigger_not_earlier)

lemma update_ticket_tiers_stamps:
  "update_ticket_tiers s wh_t set_t db = Inr db_t \<and> i < length (ticket_tiers db) \<and>
   wh_t (ticket_tiers db ! i) \<and> updated_at (ticket_tiers db ! i) = Some u \<and>
   created_at (ticket_tiers db_t ! i) = Some c \<longrightarrow>
     updated_at (ticket_tiers db_t ! i) = Some (NOW s) \<and>
     updated_at_not_earlier (ticket_tiers db ! i) (ticket_tiers db_t ! i) = (u \<le> NOW s \<and> c \<le> NOW s)"
  by (clarsimp dest!: update_ticket_tiers_result simp add: trigger_updated_at trigger_not_earlier)

lemma update_tickets_stamps:
  "update_tickets s wh_k set_k db = Inr db_k \<and> i < length (tickets db) \<and>
   wh_k (tickets db ! i) \<and> updated_at (tickets db ! i) = Some u \<and>
   created_at (tickets db_k ! i) = Some c \<longrightarrow>
     updated_at (tickets db_k ! i) = Some (NOW s) \<and>
     updated_at_not_earlier (tickets db ! i) (tickets db_k ! i) = (u \<le> NOW s \<and> c \<le> NOW s)"
  by (clarsimp dest!: update_tickets_result simp add: trigger_updated_at trigger_not_earlier)

lemma update_transactions_stamps:
  "update_transactions s wh_x set_x db = Inr db_x \<and> i < length (transactions db) \<and>
   wh_x (transactions db ! i) \<and> updated_at (transactions db ! i) = Some u \<and>
   created_at (transactions db_x ! i) = Some c \<longrightarrow>
     updated_at (transactions db_x ! i) = Some (NOW s) \<and>
     updated_at_not_earlier (transactions db ! i) (transactions db_x ! i) = (u \<le> NOW s \<and> c \<le> NOW s)"
  by (clarsimp dest!: update_transactions_result simp add: trigger_updated_at trigger_not_earlier)

text \<open>
  C3, amended. Every successful \<open>UPDATE\<close> of a row of any of the six tables sets its
  \<open>updated_at\<close> to the current time \<open>NOW()\<close> of the statement, because the
  \<open>BEFORE UPDATE\<close> trigger of the table overwrites it. That value is not earlier than
  the previous \<open>updated_at\<close> \<open>u\<close> and the stored \<open>created_at\<close> \<open>c\<close> exactly when
  neither of the two is later than the current time.
\<close>

theorem update_sets_updated_at_to_now:
  "(update_users s wh_u set_u db = Inr db_u \<and> i < length (users db) \<and>
    wh_u (users db ! i) \<and> updated_at (users db ! i) = Some u \<and>
    created_at (users db_u ! i) = Some c \<longrightarrow>
      updated_at (users db_u ! i) = Some (NOW s) \<and>
      updated_at_not_earlier (users db ! i) (users db_u ! i) = (u \<le> NOW s \<and> c \<le> NOW s)) \<and>
   (update_organizers s wh_o set_o db = Inr db_o \<and> i < length (organizers db) \<and>
    wh_o (organizers db ! i) \<and> updated_at (organizers db ! i) = Some u \<and>
    created_at (organizers db_o ! i) = Some c \<longrightarrow>
      updated_at (organizers db_o ! i) = Some (NOW s) \<and>
      updated_at_not_earlier (organizers db ! i) (organizers db_o ! i) = (u \<le> NOW s \<and> c \<le> NOW s)) \<and>
   (update_events s wh_e set_e db = Inr db_e \<and> i < length (events db) \<and>
    wh_e (events db ! i) \<and> updated_at (events db ! i) = Some u \<and>
    created_at (events db_e ! i) = Some c \<longrightarrow>
      updated_at (events db_e ! i) = Some (NOW s) \<and>
      updated_at_not_earlier (events db ! i) (events db_e ! i) = (u \<le> NOW s \<and> c \<le> NOW s)) \<and>
   (update_ticket_tiers s wh_t set_t db = Inr db_t \<and> i < length (ticket_tiers db) \<and>
    wh_t (ticket_tiers db ! i) \<and> updated_at (ticket_tiers db ! i) = Some u \<and>
    created_at (ticket_tiers db_t ! i) = Some c \<longrightarrow>
      updated_at (ticket_tiers db_t ! i) = Some (NOW s) \<and>
      updated_at_not_earlier (ticket_tiers db ! i) (ticket_tiers db_t ! i) = (u \<le> NOW s \<and> c \<le> NOW s)) \<and>
   (update_tickets s wh_k set_k db = Inr db_k \<and> i < length (tickets db) \<and>
    wh_k (tickets db ! i) \<and> updated_at (tickets db ! i) = Some u \<and>
    created_at (tickets db_k ! i) = Some c \<longrightarrow>
      updated_at (tickets db_k ! i) = Some (NOW s) \<and>
      updated_at_not_earlier (tickets db ! i) (tickets db_k ! i) = (u \<le> NOW s \<and> c \<le> NOW s)) \<and>
   (update_transactions s wh_x set_x db = Inr db_x \<and> i < length (transactions db) \<and>
    wh_x (transactions db ! i) \<and> updated_at (transactions db ! i) = Some u \<and>
    created_at (transactions db_x ! i) = Some c \<longrightarrow>
      updated_at (transactions db_x ! i) = Some (NOW s) \<and>
      updated_at_not_earlier (transactions db ! i) (transactions db_x ! i) = (u \<le> NOW s \<and> c \<le> NOW s))"
  by (rule conjI [OF update_users_stamps conjI [OF update_organizers_stamps
        conjI [OF update_events_stamps conjI [OF update_ticket_tiers_stamps
        conjI [OF update_tickets_stamps update_transactions_stamps]]]]])

text \<open>
  On the example database, whose timestamps are all earlier than 200: the six updates at
  time 200 succeed, store \<open>updated_at\<close> 200, and this is not earlier than the previous
  \<open>updated_at\<close> and \<open>created_at\<close>.
\<close>

theorem update_sets_updated_at_to_now_witness:
  "\<not> isl (update_users example_session (where_id 1) (set_users_name ''Ada L.'') example_database) \<and>
   updated_at
     (users (state_after example_database
        (update_users example_session (where_id 1) (set_users_name ''Ada L.'') example_database)) ! 0) = Some 200 \<and>
   updated_at_not_earlier (users example_database ! 0)
     (users (state_after example_database
        (update_users example_session (where_id 1) (set_users_name ''Ada L.'') example_database)) ! 0) \<and>
   \<not> isl (update_organizers example_session (where_id 10) (set_organizers_description ''Lagos chapter'') example_database) \<and>
   updated_at
     (organizers (state_after example_database
        (update_organizers example_session (where_id 10) (set_organizers_description ''Lagos chapter'') example_database)) ! 0) = Some 200 \<and>
   updated_at_not_earlier (organizers example_database ! 0)
     (organizers (state_after example_database
        (update_organizers example_session (where_id 10) (set_organizers_description ''Lagos chapter'') example_database)) ! 0) \<and>
   \<not> isl (update_events example_session (where_id 20) (set_events_location ''Abuja'') example_database) \<and>
   updated_at
     (events (state_after example_database
        (update_events example_session (where_id 20) (set_events_location ''Abuja'') example_database)) ! 0) = Some 200 \<and>
   updated_at_not_earlier (events example_database ! 0)
     (events (state_after example_database
        (update_events example_session (where_id 20) (set_events_location ''Abuja'') example_database)) ! 0) \<and>
   \<not> isl (update_ticket_tiers example_session (where_id 30) (set_ticket_tiers_available_quantity 98) example_database) \<and>
   updated_at
     (ticket_tiers (state_after example_database
        (update_ticket_tiers example_session (where_id 30) (set_ticket_tiers_available_quantity 98) example_database)) ! 0) = Some 200 \<and>
   updated_at_not_earlier (ticket_tiers example_database ! 0)
     (ticket_tiers (state_after example_database
        (update_ticket_tiers example_session (where_id 30) (set_ticket_tiers_available_quantity 98) example_database)) ! 0) \<and>
   \<not> isl (update_tickets example_session (where_id 40) (set_tickets_status ''used'') example_database) \<and>
   updated_at
     (tickets (state_after example_database
        (update_tickets example_session (where_id 40) (set_tickets_status ''used'') example_database)) ! 0) = Some 200 \<and>
   updated_at_not_earlier (tickets example_database ! 0)
     (tickets (state_after example_database
        (update_tickets example_session (where_id 40) (set_tickets_status ''used'') example_database)) ! 0) \<and>
   \<not> isl (update_transactions example_session (where_id 50) (set_transactions_status ''failed'') example_database) \<and>
   updated_at
     (transactions (state_after example_database
        (update_transactions example_session (where_id 50) (set_transactions_status ''failed'') example_database)) ! 0) = Some 200 \<and>
   updated_at_not_earlier (transactions example_database ! 0)
     (transactions (state_after example_database
        (update_transactions example_session (where_id 50) (set_transactions_status ''failed'') example_database)) ! 0)"
  using update_sets_updated_at_to_now
      [where s = example_session and db = example_database and i = 0
        and wh_u = "where_id 1" and set_u = "set_users_name ''Ada L.''"
        and wh_o = "where_id 10" and set_o = "set_organizers_description ''Lagos chapter''"
        and wh_e = "where_id 20" and set_e = "set_events_location ''Abuja''"
        and wh_t = "where_id 30" and set_t = "set_ticket_tiers_available_quantity 98"
        and wh_k = "where_id 40" and set_k = "set_tickets_status ''used''"
        and wh_x = "where_id 50" and set_x = "set_transactions_status ''failed''"]
  by (simp add: example_session_def example_database_def where_id_def sql_eq_def set_users_name_def
      set_organizers_description_def set_events_location_def
      set_ticket_tiers_available_quantity_def set_tickets_status_def
      set_transactions_status_def update_users_def update_organizers_def update_events_def
      update_ticket_tiers_def update_tickets_def update_transactions_def
      update_users_updated_at_def update_organizers_updated_at_def
      update_events_updated_at_def update_ticket_tiers_updated_at_def
      update_tickets_updated_at_def update_transactions_updated_at_def
      update_updated_at_column_def users_constraints_def organizers_constraints_def
      events_constraints_def ticket_tiers_constraints_def tickets_constraints_def
      transactions_constraints_def not_null_def unique_key_def decimal_10_2_range_def
      references_changed_def references_def no_action_def Let_def state_after_def
      updated_at_not_earlier_def)

end
